theory Spec2Isabelle
  imports Main "HOL-Library.Multiset"
begin

section \<open>Screens\<close>

text \<open>
  The class constants of \<^verbatim>\<open>DecisionGame\<close> (main_game.py, lines 40-52). The program
  stores a screen as its string; \<open>screen_name\<close> gives that string, which is what the
  truth test \<^verbatim>\<open>if self.previous_state:\<close> looks at.
\<close>

datatype ScreenState =
    MAIN_MENU | LOGIN | REGISTER | SCENARIO | LETS_TALK | HISTORY | SETTINGS
  | PERSONALITY_TEST | PERSONALITY_RESULT | SIMULATION | SIMULATION_RESULT
  | SIMULATION_REPORT | LOADING

fun screen_name :: "ScreenState \<Rightarrow> string" where
  "screen_name MAIN_MENU = ''main_menu''"
| "screen_name LOGIN = ''login''"
| "screen_name REGISTER = ''register''"
| "screen_name SCENARIO = ''scenario''"
| "screen_name LETS_TALK = ''lets_talk''"
| "screen_name HISTORY = ''history''"
| "screen_name SETTINGS = ''settings''"
| "screen_name PERSONALITY_TEST = ''personality_test''"
| "screen_name PERSONALITY_RESULT = ''personality_result''"
| "screen_name SIMULATION = ''simulation''"
| "screen_name SIMULATION_RESULT = ''simulation_result''"
| "screen_name SIMULATION_REPORT = ''simulation_report''"
| "screen_name LOADING = ''loading''"

text \<open>Python's truth value of \<^verbatim>\<open>self.previous_state\<close>: \<^verbatim>\<open>None\<close> and the empty string are false.\<close>

definition truthy_state :: "ScreenState option \<Rightarrow> bool" where
  "truthy_state p = (case p of None \<Rightarrow> False | Some s \<Rightarrow> screen_name s \<noteq> [])"

section \<open>Strings\<close>

text \<open>
  A Python \<^verbatim>\<open>str\<close> is modelled as a \<open>string\<close> whose characters are read as the code
  points U+0000 to U+00FF. \<open>py_isspace\<close> is \<^verbatim>\<open>str.isspace\<close> on that range, the set
  \<^verbatim>\<open>str.strip()\<close> removes.
\<close>

definition newline :: char where
  "newline = CHR 0x0A"

definition py_isspace :: "char \<Rightarrow> bool" where
  "py_isspace c = (of_char c \<in> {9, 10, 11, 12, 13, 28, 29, 30, 31, 32, 133, 160 :: nat})"

definition py_strip :: "string \<Rightarrow> string" where
  "py_strip s = rev (dropWhile py_isspace (rev (dropWhile py_isspace s)))"

text \<open>\<^verbatim>\<open>s.split("\n")\<close>: never empty, \<^verbatim>\<open>"".split("\n") == [""]\<close>.\<close>

fun split_from :: "string \<Rightarrow> string \<Rightarrow> string list" where
  "split_from cur [] = [rev cur]"
| "split_from cur (c # cs) =
     (if c = newline then rev cur # split_from [] cs else split_from (c # cur) cs)"

definition split_nl :: "string \<Rightarrow> string list" where
  "split_nl s = split_from [] s"

text \<open>\<^verbatim>\<open>"\n".join(lines)\<close>.\<close>

fun join_nl :: "string list \<Rightarrow> string" where
  "join_nl [] = []"
| "join_nl [l] = l"
| "join_nl (l # ls) = l @ newline # join_nl ls"

section \<open>Widgets\<close>

text \<open>
  \<^verbatim>\<open>pygame.Rect\<close> and the two widgets of ui.py the handlers read. Of a widget only the
  fields that decide hit tests and text content are kept: colours, fonts, the cursor, the
  scroll offset and the blink and click timestamps (which depend on font metrics and on
  the clock, and which no handler below reads) are left out.
\<close>

record Rect =
  rect_x :: int
  rect_y :: int
  rect_w :: int
  rect_h :: int

definition collidepoint :: "Rect \<Rightarrow> int \<times> int \<Rightarrow> bool" where
  "collidepoint r p =
     (rect_x r \<le> fst p \<and> fst p < rect_x r + rect_w r \<and>
      rect_y r \<le> snd p \<and> snd p < rect_y r + rect_h r)"

record Button =
  b_rect :: Rect
  b_visible :: bool
  b_disabled :: bool

definition is_clicked :: "Button \<Rightarrow> int \<times> int \<Rightarrow> bool" where
  "is_clicked b mouse_pos = (b_visible b \<and> \<not> b_disabled b \<and> collidepoint (b_rect b) mouse_pos)"

record TextBox =
  tb_rect :: Rect
  tb_visible :: bool
  tb_active :: bool
  tb_multiline :: bool
  tb_text :: string
  tb_lines :: "string list"

definition get_text :: "TextBox \<Rightarrow> string" where
  "get_text t = (if tb_multiline t then join_nl (tb_lines t) else tb_text t)"

definition set_text :: "string \<Rightarrow> TextBox \<Rightarrow> TextBox" where
  "set_text s t =
     (if tb_multiline t
      then t\<lparr>tb_lines := (let ls = split_nl s in if ls = [] then [[]] else ls)\<rparr>
      else t\<lparr>tb_text := s\<rparr>)"

text \<open>\<^verbatim>\<open>TextBox.handle_event\<close> for a \<^verbatim>\<open>MOUSEBUTTONDOWN\<close> event at \<open>pos\<close>: the focus follows the click.\<close>

definition handle_mouse_down :: "int \<times> int \<Rightarrow> TextBox \<Rightarrow> TextBox" where
  "handle_mouse_down pos t =
     (if \<not> tb_visible t then t else t\<lparr>tb_active := collidepoint (tb_rect t) pos\<rparr>)"

section \<open>Floating point\<close>

text \<open>
  \<^verbatim>\<open>_update_loading\<close> computes its progress and its animation frame in Python floats
  (IEEE 754 binary64, round to nearest, ties to even). A finite float is the pair
  \<open>(m, e)\<close> of the value \<open>m * 2 ^ e\<close>; \<open>nearest n d\<close> is the float nearest to the
  fraction \<open>n / d\<close> for \<open>d > 0\<close>. Overflow and subnormal numbers are out of the range
  of a millisecond tick counter and are not modelled.
\<close>

type_synonym pyfloat = "int \<times> int"

text \<open>\<^verbatim>\<open>int.bit_length\<close> of a non-negative integer.\<close>

function bit_length :: "int \<Rightarrow> int" where
  "bit_length n = (if n \<le> 0 then 0 else 1 + bit_length (n div 2))"
  by pat_completeness auto
termination
  by (relation "measure nat") auto

declare bit_length.simps [simp del]

definition round_pick :: "int \<Rightarrow> int \<Rightarrow> int \<Rightarrow> int" where
  "round_pick q r d =
     (if 2 * r < d then q else if d < 2 * r then q + 1 else if even q then q else q + 1)"

definition round_half_even :: "int \<Rightarrow> int \<Rightarrow> int" where
  "round_half_even n d = round_pick (n div d) (n mod d) d"

text \<open>\<open>floor_log2 n d\<close> is the \<open>t\<close> with \<open>2 ^ t \<le> n / d < 2 ^ (t + 1)\<close>, for positive \<open>n\<close> and \<open>d\<close>.\<close>

definition adjust_log2 :: "int \<Rightarrow> int \<Rightarrow> int \<Rightarrow> int" where
  "adjust_log2 n d t =
     (if (if 0 \<le> t then d * 2 ^ nat t \<le> n else d \<le> n * 2 ^ nat (- t)) then t else t - 1)"

definition floor_log2 :: "int \<Rightarrow> int \<Rightarrow> int" where
  "floor_log2 n d = adjust_log2 n d (bit_length n - bit_length d)"

definition scaled_round :: "int \<Rightarrow> int \<Rightarrow> int \<Rightarrow> int" where
  "scaled_round a d e =
     (if 0 \<le> e then round_half_even a (d * 2 ^ nat e) else round_half_even (a * 2 ^ nat (- e)) d)"

definition nearest_at :: "int \<Rightarrow> int \<Rightarrow> int \<Rightarrow> pyfloat" where
  "nearest_at n d e = (sgn n * scaled_round \<bar>n\<bar> d e, e)"

definition nearest :: "int \<Rightarrow> int \<Rightarrow> pyfloat" where
  "nearest n d = (if n = 0 then (0, 0) else nearest_at n d (floor_log2 \<bar>n\<bar> d - 52))"

text \<open>A float as a fraction: numerator and positive denominator.\<close>

definition ratio :: "pyfloat \<Rightarrow> int \<times> int" where
  "ratio x = (if 0 \<le> snd x then (fst x * 2 ^ nat (snd x), 1) else (fst x, 2 ^ nat (- snd x)))"

definition float_of_int :: "int \<Rightarrow> pyfloat" where
  "float_of_int i = nearest i 1"

text \<open>Float division and multiplication; the divisor is positive where the program divides.\<close>

definition fdiv :: "pyfloat \<Rightarrow> pyfloat \<Rightarrow> pyfloat" where
  "fdiv x y = (case (ratio x, ratio y) of ((nx, dx), (ny, dy)) \<Rightarrow> nearest (nx * dy) (dx * ny))"

definition fmul :: "pyfloat \<Rightarrow> pyfloat \<Rightarrow> pyfloat" where
  "fmul x y = (case (ratio x, ratio y) of ((nx, dx), (ny, dy)) \<Rightarrow> nearest (nx * ny) (dx * dy))"

text \<open>\<^verbatim>\<open>int(x)\<close>: truncation towards zero.\<close>

definition py_int :: "pyfloat \<Rightarrow> int" where
  "py_int x = (case ratio x of (n, d) \<Rightarrow> sgn n * (\<bar>n\<bar> div d))"

text \<open>\<^verbatim>\<open>int(elapsed_time / 2000 * 100)\<close> and \<^verbatim>\<open>int(elapsed_time / 33.3) % 8\<close>.\<close>

definition progress_ramp :: "int \<Rightarrow> int" where
  "progress_ramp elapsed_time =
     py_int (fmul (fdiv (float_of_int elapsed_time) (float_of_int 2000)) (float_of_int 100))"

definition animation_frame :: "int \<Rightarrow> int" where
  "animation_frame elapsed_time =
     py_int (fdiv (float_of_int elapsed_time) (nearest 333 10)) mod 8"

section \<open>Application state\<close>

text \<open>
  A loading task runs its operation on a \<^verbatim>\<open>threading.Thread\<close>. The closures the
  handlers pass to \<^verbatim>\<open>start_loading\<close> are named by \<open>operation\<close>; a thread is its
  operation and what \<^verbatim>\<open>is_alive()\<close> answers.
\<close>

datatype operation =
    PerformLogin string string
  | PerformRegistration string string string string
  | PerformScenarioAnalysis string
  | LoadPersonalityTest
  | SubmitMbtiToApi
  | GenerateLocalMbtiResult
  | LoadHistoryData
  | PerformHistorySearch string

datatype thread = Thread (thread_target: operation) (is_alive: bool)

record summary =
  clarity_level :: string
  key_insights :: "string list"
  suggested_next_steps :: "string list"

text \<open>
  A quiz question is a dictionary; \<open>q_id\<close> and \<open>dimension\<close> are \<open>None\<close> when the key
  is absent (the questions of the AI fallback carry no \<^verbatim>\<open>"dimension"\<close>).
\<close>

record question =
  q_id :: "int option"
  q_question :: string
  q_options :: "string list"
  dimension :: "string option"

text \<open>
  The fields of \<^verbatim>\<open>DecisionGame\<close> the modelled handlers read or write. The widgets made
  by \<^verbatim>\<open>UIComponents.initialize_all_components\<close> in the constructor always exist (a
  \<^verbatim>\<open>hasattr\<close> test on them is true); \<open>response_input\<close> is made later, by
  \<^verbatim>\<open>setup_conversation_ui\<close>, so it is optional. \<open>mbti_answers\<close> is a dictionary in
  insertion order; \<open>mbti_result\<close> keeps the \<^verbatim>\<open>"type"\<close> entry of the result dictionary.
\<close>

record game =
  current_state :: ScreenState
  previous_state :: "ScreenState option"
  status_message :: string
  status_color :: "int \<times> int \<times> int"
  user :: "string option"
  token :: "string option"
  is_loading :: bool
  loading_message :: string
  loading_target_state :: "ScreenState option"
  loading_progress :: int
  loading_start_time :: int
  loading_operation :: "thread option"
  loading_completed :: bool
  loading_animation_frames :: int
  scenario_text :: string
  conversation_questions :: "string list"
  current_question_index :: int
  user_responses :: "string list"
  conversation_complete :: bool
  conversation_summary :: "summary option"
  mbti_questions :: "question list"
  current_mbti_index :: int
  mbti_answers :: "(int \<times> int) list"
  mbti_result :: "string option"
  username_box :: TextBox
  password_box :: TextBox
  scenario_input_box :: TextBox
  response_input :: "TextBox option"
  login_submit_button :: Button
  back_button :: Button
  next_question_button :: Button
  previous_question_button :: Button
  finish_conversation_button :: Button
  explore_more_button :: Button
  new_topic_button :: Button

definition set_status :: "string \<Rightarrow> int \<times> int \<times> int \<Rightarrow> game \<Rightarrow> game" where
  "set_status message color g = g\<lparr>status_message := message, status_color := color\<rparr>"

section \<open>Screen controller (main_game.py)\<close>

definition change_state :: "ScreenState \<Rightarrow> bool \<Rightarrow> game \<Rightarrow> game" where
  "change_state new_state save_previous g =
     (let g1 = (if save_previous then g\<lparr>previous_state := Some (current_state g)\<rparr> else g)
      in g1\<lparr>current_state := new_state\<rparr>)"

definition back_to_previous_state :: "game \<Rightarrow> game" where
  "back_to_previous_state g =
     (if truthy_state (previous_state g)
      then (let temp = current_state g
            in g\<lparr>current_state := the (previous_state g), previous_state := Some temp\<rparr>)
      else g\<lparr>current_state := SCENARIO\<rparr>)"

section \<open>Loading lifecycle (main_game.py)\<close>

text \<open>
  \<open>now\<close> is what \<^verbatim>\<open>pygame.time.get_ticks()\<close> returns, in milliseconds. A started
  thread is alive; it stops being alive when its operation returns.
\<close>

definition start_loading :: "int \<Rightarrow> string \<Rightarrow> ScreenState option \<Rightarrow> operation option \<Rightarrow> game \<Rightarrow> game" where
  "start_loading now message target_state op g =
     g\<lparr>is_loading := True,
       loading_message := message,
       loading_target_state := target_state,
       loading_progress := 0,
       loading_start_time := now,
       loading_completed := False,
       loading_operation := (case op of None \<Rightarrow> None | Some f \<Rightarrow> Some (Thread f True))\<rparr>"

definition update_loading :: "int \<Rightarrow> game \<Rightarrow> game" where
  "update_loading now g =
     (let elapsed_time = now - loading_start_time g;
          g1 = g\<lparr>loading_animation_frames := animation_frame elapsed_time\<rparr>
      in if loading_operation g1 \<noteq> None \<and> \<not> loading_completed g1
         then (if \<not> is_alive (the (loading_operation g1))
               then g1\<lparr>loading_completed := True, loading_progress := 100\<rparr>
               else g1)
         else if elapsed_time < 2000
         then g1\<lparr>loading_progress := progress_ramp elapsed_time\<rparr>
         else (let g2 = g1\<lparr>loading_progress := 100\<rparr>
               in if 2500 < elapsed_time \<and> \<not> loading_completed g2
                  then g2\<lparr>loading_completed := True\<rparr>
                  else if 3500 < elapsed_time
                  then (let g3 = g2\<lparr>is_loading := False\<rparr>
                        in if current_state g3 \<noteq> LOGIN then g3\<lparr>current_state := LOGIN\<rparr> else g3)
                  else g2))"

text \<open>
  \<^verbatim>\<open>DecisionGame.update\<close>: the loading part. The rest of the method only resizes the
  history scroll area.
\<close>

definition update :: "int \<Rightarrow> game \<Rightarrow> game" where
  "update now g =
     (if is_loading g
      then (let g1 = update_loading now g
            in if loading_completed g1 \<and> loading_target_state g1 \<noteq> None
               then g1\<lparr>loading_operation := None,
                        is_loading := False,
                        current_state := the (loading_target_state g1),
                        loading_target_state := None\<rparr>
               else g1)
      else g)"

text \<open>The main loop calls \<^verbatim>\<open>update\<close> once per frame; \<open>run_updates\<close> does so at the given tick times.\<close>

fun run_updates :: "int list \<Rightarrow> game \<Rightarrow> game" where
  "run_updates [] g = g"
| "run_updates (now # ticks) g = run_updates ticks (update now g)"

text \<open>
  The operation returns and its thread ends: \<^verbatim>\<open>is_alive()\<close> is false from then on. When
  that happens is up to the operation; one that waits for a remote service (the login,
  or the analysis of a scenario for a logged-in user, which calls the AI service with no
  time limit) has not ended for as long as the service has not answered.
\<close>

definition thread_ends :: "game \<Rightarrow> game" where
  "thread_ends g =
     g\<lparr>loading_operation :=
         map_option (\<lambda>th. Thread (thread_target th) False) (loading_operation g)\<rparr>"

section \<open>Registration and login outcomes (game_logic.py, event_handlers.py)\<close>

text \<open>
  What the API client answers: a dictionary, of which the handlers read
  \<^verbatim>\<open>"status_code"\<close> and \<^verbatim>\<open>"detail"\<close> (registration) or \<^verbatim>\<open>"access_token"\<close> and
  \<^verbatim>\<open>"error"\<close> (login), or an exception with its message.
\<close>

datatype register_result = RegisterReturned "int option" "string option" | RegisterRaised string

datatype login_result = LoginReturned "string option" "string option" | LoginRaised string

definition register :: "register_result \<Rightarrow> game \<Rightarrow> game" where
  "register result g =
     (case result of
        RegisterReturned status_code detail \<Rightarrow>
          (if status_code = Some 200
           then set_status ''Registration successful! Please login.'' (0, 255, 0) g
           else (let error_msg = (case detail of None \<Rightarrow> ''Registration failed. Try a different username or email.'' | Some d \<Rightarrow> d);
                     g1 = set_status (''Registration failed: '' @ error_msg) (255, 0, 0) g
                 in if is_loading g1
                    then g1\<lparr>loading_target_state := Some REGISTER, loading_completed := True\<rparr>
                    else g1))
      | RegisterRaised error_msg \<Rightarrow>
          (let g1 = set_status (''Registration error: '' @ error_msg) (255, 0, 0) g
           in if is_loading g1
              then g1\<lparr>loading_target_state := Some REGISTER, loading_completed := True\<rparr>
              else g1))"

definition perform_login :: "string \<Rightarrow> login_result \<Rightarrow> game \<Rightarrow> game" where
  "perform_login username result g =
     (case result of
        LoginReturned (Some access_token) err \<Rightarrow>
          set_status (''Welcome, '' @ username @ ''!'') (0, 255, 0)
            (g\<lparr>user := Some username, token := Some access_token\<rparr>)
      | LoginReturned None err \<Rightarrow>
          (let error_msg = (case err of None \<Rightarrow> ''Invalid username or password'' | Some e \<Rightarrow> e)
           in (set_status (''Login failed: '' @ error_msg) (255, 0, 0) g)
                \<lparr>loading_target_state := Some LOGIN, loading_completed := True\<rparr>)
      | LoginRaised e \<Rightarrow>
          (set_status (''Login error: '' @ e) (255, 0, 0) g)
            \<lparr>loading_target_state := Some LOGIN, loading_completed := True\<rparr>)"

section \<open>Validation in the command handlers (game_logic.py, event_handlers.py)\<close>

definition analyze_scenario :: "int \<Rightarrow> game \<Rightarrow> game" where
  "analyze_scenario now g =
     (let scenario_text' = get_text (scenario_input_box g)
      in if scenario_text' = [] \<or> py_strip scenario_text' = []
         then set_status ''Please enter a scenario first'' (255, 150, 0) g
         else start_loading now ''Analyzing your scenario...'' (Some LETS_TALK)
                (Some (PerformScenarioAnalysis scenario_text'))
                (g\<lparr>scenario_text := scenario_text'\<rparr>))"

text \<open>\<^verbatim>\<open>GameEventHandler._handle_login_button_click\<close> for a click at \<open>mouse_pos\<close>.\<close>

definition handle_login_button_click :: "int \<Rightarrow> int \<times> int \<Rightarrow> game \<Rightarrow> game" where
  "handle_login_button_click now mouse_pos g =
     (let g1 = g\<lparr>username_box := handle_mouse_down mouse_pos (username_box g),
                  password_box := handle_mouse_down mouse_pos (password_box g)\<rparr>
      in if is_clicked (login_submit_button g1) mouse_pos
         then (let username = get_text (username_box g1);
                   password = get_text (password_box g1)
               in if username = [] \<or> password = []
                  then set_status ''Please enter username and password'' (255, 150, 0) g1
                  else if username = ''test'' \<and> password = ''test''
                  then set_status ''Welcome, Test User!'' (0, 255, 0)
                         (g1\<lparr>user := Some ''Test User'', token := Some ''test_token_123'',
                             current_state := SCENARIO\<rparr>)
                  else start_loading now ''Logging in...'' (Some SCENARIO)
                         (Some (PerformLogin username password)) g1)
         else if is_clicked (back_button g1) mouse_pos
         then set_status ''Welcome to Decision Game'' (255, 255, 255) (g1\<lparr>current_state := MAIN_MENU\<rparr>)
         else g1)"

section \<open>Conversation (game_logic.py, event_handlers.py)\<close>

text \<open>
  \<^verbatim>\<open>generate_conversation_summary\<close> draws the clarity level with \<^verbatim>\<open>random.choice\<close>;
  \<open>draw\<close> is the index it picks.
\<close>

definition clarity_levels :: "string list" where
  "clarity_levels = [''Low'', ''Moderate'', ''Good'', ''High'', ''Excellent'']"

definition generate_conversation_summary :: "nat \<Rightarrow> summary" where
  "generate_conversation_summary draw =
     \<lparr>clarity_level = clarity_levels ! (draw mod 5),
      key_insights =
        [''You seem to value long-term outcomes over short-term gains.'',
         ''Financial considerations appear to be a significant factor in your decision.'',
         ''Your responses indicate a preference for collaborative approaches.''],
      suggested_next_steps =
        [''Consider creating a pros and cons list for each option.'',
         ''Discuss your options with trusted advisors.'',
         ''Set a firm deadline for making your final decision.'']\<rparr>"

definition complete_conversation :: "nat \<Rightarrow> game \<Rightarrow> game" where
  "complete_conversation draw g =
     set_status ''Conversation complete! Here's your decision clarity summary.'' (0, 200, 0)
       (g\<lparr>conversation_complete := True,
          next_question_button := (next_question_button g)\<lparr>b_visible := False\<rparr>,
          previous_question_button := (previous_question_button g)\<lparr>b_visible := False\<rparr>,
          finish_conversation_button := (finish_conversation_button g)\<lparr>b_visible := False\<rparr>,
          explore_more_button := (explore_more_button g)\<lparr>b_visible := True\<rparr>,
          new_topic_button := (new_topic_button g)\<lparr>b_visible := True\<rparr>,
          conversation_summary := Some (generate_conversation_summary draw)\<rparr>)"

text \<open>
  \<^verbatim>\<open>answer_current_question\<close> reads \<^verbatim>\<open>self.game.response_input\<close> without a test: when
  the attribute is missing Python raises \<^verbatim>\<open>AttributeError\<close>, after the response was
  appended.
\<close>

datatype py_error = AttributeError

definition answer_current_question :: "nat \<Rightarrow> string \<Rightarrow> game \<Rightarrow> py_error + game" where
  "answer_current_question draw response g =
     (let g1 = g\<lparr>user_responses := user_responses g @ [response]\<rparr>
      in case response_input g1 of
           None \<Rightarrow> Inl AttributeError
         | Some box \<Rightarrow>
             (let g2 = g1\<lparr>response_input := Some (set_text [] box)\<rparr>;
                  g3 = g2\<lparr>current_question_index := current_question_index g2 + 1\<rparr>
              in if int (length (conversation_questions g3)) \<le> current_question_index g3
                 then Inr (complete_conversation draw g3)
                 else Inr (g3\<lparr>previous_question_button :=
                                (previous_question_button g3)\<lparr>b_visible := True\<rparr>\<rparr>)))"

definition submit_response :: "nat \<Rightarrow> game \<Rightarrow> py_error + game" where
  "submit_response draw g =
     (case response_input g of
        None \<Rightarrow> Inr g
      | Some box \<Rightarrow>
          (let response = get_text box
           in if response \<noteq> []
              then answer_current_question draw response g
              else Inr (set_status ''Please enter a response'' (255, 150, 0) g)))"

text \<open>
  The user's typing between two submissions is not followed key by key: \<open>type_response\<close>
  leaves the response box holding the text \<open>r\<close>. \<open>submit_all\<close> types and submits each
  response in turn, with the random draw of each submission.
\<close>

definition type_response :: "string \<Rightarrow> game \<Rightarrow> game" where
  "type_response r g = g\<lparr>response_input := map_option (set_text r) (response_input g)\<rparr>"

fun submit_all :: "(nat \<times> string) list \<Rightarrow> game \<Rightarrow> py_error + game" where
  "submit_all [] g = Inr g"
| "submit_all ((draw, r) # rest) g =
     (case submit_response draw (type_response r g) of
        Inl e \<Rightarrow> Inl e
      | Inr g' \<Rightarrow> submit_all rest g')"

section \<open>Local quiz scoring (game_logic.py)\<close>

record scores =
  e_score :: int
  i_score :: int
  s_score :: int
  n_score :: int
  t_score :: int
  f_score :: int
  j_score :: int
  p_score :: int

definition zero_scores :: scores where
  "zero_scores = \<lparr>e_score = 0, i_score = 0, s_score = 0, n_score = 0,
                  t_score = 0, f_score = 0, j_score = 0, p_score = 0\<rparr>"

text \<open>The inner loop: the first question whose \<^verbatim>\<open>"id"\<close> equals the answer's key.\<close>

fun find_question :: "question list \<Rightarrow> int \<Rightarrow> question option" where
  "find_question [] question_id = None"
| "find_question (q # qs) question_id =
     (if q_id q = Some question_id then Some q else find_question qs question_id)"

definition apply_score :: "string \<Rightarrow> int \<Rightarrow> scores \<Rightarrow> scores" where
  "apply_score dim score sc =
     (if dim = ''E-I'' then sc\<lparr>e_score := e_score sc + score\<rparr>
      else if dim = ''I-E'' then sc\<lparr>i_score := i_score sc + score\<rparr>
      else if dim = ''S-N'' then sc\<lparr>s_score := s_score sc + score\<rparr>
      else if dim = ''N-S'' then sc\<lparr>n_score := n_score sc + score\<rparr>
      else if dim = ''T-F'' then sc\<lparr>t_score := t_score sc + score\<rparr>
      else if dim = ''F-T'' then sc\<lparr>f_score := f_score sc + score\<rparr>
      else if dim = ''J-P'' then sc\<lparr>j_score := j_score sc + score\<rparr>
      else if dim = ''P-J'' then sc\<lparr>p_score := p_score sc + score\<rparr>
      else sc)"

text \<open>One pass of the outer loop, for the item \<open>(question_id, answer)\<close>.\<close>

definition score_item :: "question list \<Rightarrow> int \<times> int \<Rightarrow> scores \<Rightarrow> scores" where
  "score_item questions item sc =
     (case find_question questions (fst item) of
        None \<Rightarrow> sc
      | Some question \<Rightarrow>
          (case dimension question of
             None \<Rightarrow> sc
           | Some dim \<Rightarrow> apply_score dim (2 - snd item) sc))"

fun score_answers :: "question list \<Rightarrow> (int \<times> int) list \<Rightarrow> scores \<Rightarrow> scores" where
  "score_answers questions [] sc = sc"
| "score_answers questions (item # items) sc =
     score_answers questions items (score_item questions item sc)"

definition type_code :: "scores \<Rightarrow> string" where
  "type_code sc =
     [if i_score sc < e_score sc then CHR ''E'' else CHR ''I'',
      if n_score sc < s_score sc then CHR ''S'' else CHR ''N'',
      if f_score sc < t_score sc then CHR ''T'' else CHR ''F'',
      if p_score sc < j_score sc then CHR ''J'' else CHR ''P'']"

text \<open>
  \<open>compute_type\<close> is the type code \<^verbatim>\<open>_generate_local_mbti_result\<close> computes. The source
  stores in \<^verbatim>\<open>mbti_result\<close> the dictionary \<^verbatim>\<open>_get_mbti_type_description(type_code)\<close>, whose
  \<^verbatim>\<open>"type"\<close> entry is the type code for each of the sixteen codes; the model keeps that
  entry. \<^verbatim>\<open>mbti_answers\<close> is the dictionary from question ids to answer indices, as the
  list of its items in insertion order.
\<close>

definition compute_type :: "question list \<Rightarrow> (int \<times> int) list \<Rightarrow> string" where
  "compute_type questions answers = type_code (score_answers questions answers zero_scores)"

definition generate_local_mbti_result :: "game \<Rightarrow> game" where
  "generate_local_mbti_result g =
     (let code = compute_type (mbti_questions g) (mbti_answers g)
      in set_status (''Your personality type: '' @ code) (0, 255, 0) (g\<lparr>mbti_result := Some code\<rparr>))"

section \<open>AI service (ai_service.py)\<close>

datatype json = JString string | JInt int | JArray "json list" | JObject "(string \<times> json) list"

text \<open>
  The outcome of one \<^verbatim>\<open>self.client.chat.completions.create\<close> call, including the read of
  \<^verbatim>\<open>completion.choices[0].message.content\<close>: an exception, or the content (\<open>None\<close> for
  Python's \<^verbatim>\<open>None\<close>). The network decides it, so it is an argument of the model.
\<close>

datatype completion = ClientRaised string | ClientContent "string option"

text \<open>What \<^verbatim>\<open>_call_groq_api\<close> returns: a string, a dictionary or a list.\<close>

datatype response = Text string | Dict "(string \<times> json) list" | List "json list"

definition startswith :: "string \<Rightarrow> string \<Rightarrow> bool" where
  "startswith s pat = (take (length pat) s = pat)"

text \<open>\<^verbatim>\<open>s.split(pat, 1)[1]\<close> when \<open>pat\<close> occurs in \<open>s\<close>.\<close>

fun after_first :: "string \<Rightarrow> string \<Rightarrow> string option" where
  "after_first pat [] = (if pat = [] then Some [] else None)"
| "after_first pat (c # cs) =
     (if startswith (c # cs) pat then Some (drop (length pat) (c # cs)) else after_first pat cs)"

text \<open>
  \<^verbatim>\<open>re.search(r'\{.*\}', s, re.DOTALL)\<close>: from the first opening brace to the last
  closing brace after it.
\<close>

definition search_braces :: "string \<Rightarrow> string option" where
  "search_braces s =
     (let from_open = dropWhile (\<lambda>c. c \<noteq> CHR ''{'') s
      in if CHR ''}'' \<in> set from_open
         then Some (rev (dropWhile (\<lambda>c. c \<noteq> CHR ''}'') (rev from_open)))
         else None)"

text \<open>
  \<open>loads\<close> stands for \<^verbatim>\<open>json.loads\<close> on a text that starts with a brace: the dictionary,
  or \<open>None\<close> when it raises.
\<close>

definition think_json :: "string \<Rightarrow> response \<Rightarrow> (string \<Rightarrow> (string \<times> json) list option) \<Rightarrow> response" where
  "think_json response_content fallback loads =
     (case search_braces response_content of
        None \<Rightarrow> fallback
      | Some potential_json \<Rightarrow>
          (case loads potential_json of
             None \<Rightarrow> fallback
           | Some parsed \<Rightarrow> Dict parsed))"

definition call_groq_api :: "completion \<Rightarrow> response \<Rightarrow> (string \<Rightarrow> (string \<times> json) list option) \<Rightarrow> response" where
  "call_groq_api outcome fallback loads =
     (case outcome of
        ClientRaised e \<Rightarrow> fallback
      | ClientContent None \<Rightarrow> fallback
      | ClientContent (Some response_content) \<Rightarrow>
          if response_content = [] \<or> py_strip response_content = [] then fallback
          else if startswith response_content ''<think>''
          then (case after_first ''</think>'' response_content of
                  None \<Rightarrow> think_json response_content fallback loads
                | Some rest \<Rightarrow>
                    if py_strip rest \<noteq> [] then Text (py_strip rest)
                    else think_json response_content fallback loads)
          else Text response_content)"

definition fallback_scenario_analysis :: "(string \<times> json) list" where
  "fallback_scenario_analysis =
     [(''questions'', JArray
        [JString ''What are your main priorities in this situation?'',
         JString ''What alternatives have you considered?'',
         JString ''What are the potential risks of each option?'',
         JString ''How might this decision affect others around you?'',
         JString ''What information do you still need to make this decision?'']),
      (''perspectives'', JArray
        [JString ''Consider how this decision aligns with your long-term goals.'',
         JString ''Think about how this decision might look in hindsight a year from now.'',
         JString ''Examine this situation from the perspective of someone you admire.'',
         JString ''Consider the ethical implications of each possible choice.'']),
      (''action_plan'', JArray
        [JString ''List all available options and their pros/cons.'',
         JString ''Gather any missing information you identified earlier.'',
         JString ''Consult with someone you trust about this decision.'',
         JString ''Set a deadline for making the final decision.''])]"

definition agree_options :: json where
  "agree_options =
     JArray [JString ''Strongly Agree'', JString ''Agree'', JString ''Neutral'',
             JString ''Disagree'', JString ''Strongly Disagree'']"

definition fallback_mbti_questions :: "json list" where
  "fallback_mbti_questions =
     [JObject [(''question'', JString ''You find it easy to introduce yourself to other people.''),
               (''id'', JInt 1), (''options'', agree_options)],
      JObject [(''question'', JString ''You often get so lost in thoughts that you ignore or forget your surroundings.''),
               (''id'', JInt 2), (''options'', agree_options)],
      JObject [(''question'', JString ''You try to respond to emails as soon as possible and cannot stand a messy inbox.''),
               (''id'', JInt 3), (''options'', agree_options)],
      JObject [(''question'', JString ''You find it easy to stay relaxed under pressure.''),
               (''id'', JInt 4), (''options'', agree_options)],
      JObject [(''question'', JString ''You do not usually initiate conversations.''),
               (''id'', JInt 5), (''options'', agree_options)]]"

definition fallback_mbti_results :: "(string \<times> json) list" where
  "fallback_mbti_results =
     [(''type'', JString ''INFJ''),
      (''description'', JString ''INFJs are creative nurturers with a strong sense of personal integrity and a drive to help others realize their potential.''),
      (''strengths'', JArray
        [JString ''Creative and artistic'', JString ''Insightful about others'',
         JString ''Committed to their values'', JString ''Deep and complex thinkers'']),
      (''weaknesses'', JArray
        [JString ''Sensitive to criticism'', JString ''Can burn out easily'',
         JString ''Perfectionistic tendencies'', JString ''Difficulty with practical matters'']),
      (''career_suggestions'', JArray
        [JString ''Counselor or therapist'', JString ''Writer or editor'',
         JString ''Healthcare professional'', JString ''Teacher or professor''])]"

definition fallback_simulation_scenarios :: "json list" where
  "fallback_simulation_scenarios =
     [JObject
        [(''title'', JString ''Career Crossroads''),
         (''description'', JString ''You've received two job offers: one at a prestigious company with higher pay but longer hours, and one at a startup with lower initial pay but more flexibility and potential for growth.''),
         (''options'', JArray
           [JString ''Accept the prestigious company offer'',
            JString ''Accept the startup offer'',
            JString ''Negotiate with both companies for better terms'',
            JString ''Decline both and continue searching''])],
      JObject
        [(''title'', JString ''Relocation Dilemma''),
         (''description'', JString ''You have an opportunity to relocate to another city for better career prospects, but it would mean leaving friends and family behind.''),
         (''options'', JArray
           [JString ''Relocate immediately'',
            JString ''Decline the opportunity'',
            JString ''Try to negotiate a remote work arrangement'',
            JString ''Delay the decision and visit the new city first''])],
      JObject
        [(''title'', JString ''Education Investment''),
         (''description'', JString ''You're considering investing in further education, which would require significant time and money but could enhance your long-term career prospects.''),
         (''options'', JArray
           [JString ''Enroll full-time'',
            JString ''Enroll part-time while continuing to work'',
            JString ''Self-study instead of formal education'',
            JString ''Postpone education and focus on gaining experience''])]]"

text \<open>
  The four wrappers. Each first looks at the type of what \<^verbatim>\<open>_call_groq_api\<close> returned.
  A string goes through the wrapper's cleaning and parsing, which sits in a
  \<^verbatim>\<open>try\<close>/\<^verbatim>\<open>except Exception\<close> that answers with the fallback and so always returns a
  value: that part is the parameter \<open>from_text\<close>. A list or dictionary that the wrapper
  does not return at once reaches \<^verbatim>\<open>response.strip()\<close>, which raises
  \<^verbatim>\<open>AttributeError\<close>; the handler then prints \<^verbatim>\<open>response[:100]\<close>, which succeeds on a
  list (the fallback is returned) and raises out of the wrapper on a dictionary.
\<close>

datatype wrapper_error = SliceOfDict

definition ai_analyze_scenario ::
  "completion \<Rightarrow> (string \<Rightarrow> (string \<times> json) list option) \<Rightarrow> (string \<Rightarrow> json) \<Rightarrow> wrapper_error + json" where
  "ai_analyze_scenario outcome loads from_text =
     (case call_groq_api outcome (Dict fallback_scenario_analysis) loads of
        Dict d \<Rightarrow> Inr (JObject d)
      | List l \<Rightarrow> Inr (JObject fallback_scenario_analysis)
      | Text t \<Rightarrow> Inr (from_text t))"

definition get_mbti_questions ::
  "completion \<Rightarrow> (string \<Rightarrow> (string \<times> json) list option) \<Rightarrow> (string \<Rightarrow> json) \<Rightarrow> wrapper_error + json" where
  "get_mbti_questions outcome loads from_text =
     (case call_groq_api outcome (List fallback_mbti_questions) loads of
        List l \<Rightarrow> Inr (JArray l)
      | Dict d \<Rightarrow> (case map_of d ''questions'' of Some qs \<Rightarrow> Inr qs | None \<Rightarrow> Inl SliceOfDict)
      | Text t \<Rightarrow> Inr (from_text t))"

definition analyze_mbti_answers ::
  "completion \<Rightarrow> (string \<Rightarrow> (string \<times> json) list option) \<Rightarrow> (string \<Rightarrow> json) \<Rightarrow> wrapper_error + json" where
  "analyze_mbti_answers outcome loads from_text =
     (case call_groq_api outcome (Dict fallback_mbti_results) loads of
        Dict d \<Rightarrow> Inr (JObject d)
      | List l \<Rightarrow> Inr (JObject fallback_mbti_results)
      | Text t \<Rightarrow> Inr (from_text t))"

definition generate_simulation_scenarios ::
  "completion \<Rightarrow> (string \<Rightarrow> (string \<times> json) list option) \<Rightarrow> (string \<Rightarrow> json) \<Rightarrow> wrapper_error + json" where
  "generate_simulation_scenarios outcome loads from_text =
     (case call_groq_api outcome (List fallback_simulation_scenarios) loads of
        Dict d \<Rightarrow> (case map_of d ''scenarios'' of Some sc \<Rightarrow> Inr sc | None \<Rightarrow> Inr (JArray []))
      | List l \<Rightarrow> Inr (JArray fallback_simulation_scenarios)
      | Text t \<Rightarrow> Inr (from_text t))"

text \<open>
  The client call fails: it raises, or it returns no content (\<^verbatim>\<open>None\<close>, the empty string
  or white space only), for which \<^verbatim>\<open>_call_groq_api\<close> raises \<^verbatim>\<open>ValueError\<close> itself.
\<close>

fun client_fails :: "completion \<Rightarrow> bool" where
  "client_fails (ClientRaised e) = True"
| "client_fails (ClientContent None) = True"
| "client_fails (ClientContent (Some s)) = (s = [] \<or> py_strip s = [])"

section \<open>The state after start-up\<close>

text \<open>
  \<^verbatim>\<open>DecisionGame.__init__\<close> with the default window of 1000 by 600 and the widgets of
  \<^verbatim>\<open>UIComponents\<close> that the handlers above read. \<^verbatim>\<open>response_input\<close> does not exist until
  \<^verbatim>\<open>setup_conversation_ui\<close> creates it.
\<close>

definition new_button :: "int \<Rightarrow> int \<Rightarrow> int \<Rightarrow> int \<Rightarrow> bool \<Rightarrow> Button" where
  "new_button x y w h visible =
     \<lparr>b_rect = \<lparr>rect_x = x, rect_y = y, rect_w = w, rect_h = h\<rparr>,
      b_visible = visible, b_disabled = False\<rparr>"

definition new_textbox :: "int \<Rightarrow> int \<Rightarrow> int \<Rightarrow> int \<Rightarrow> bool \<Rightarrow> TextBox" where
  "new_textbox x y w h multiline =
     \<lparr>tb_rect = \<lparr>rect_x = x, rect_y = y, rect_w = w, rect_h = h\<rparr>,
      tb_visible = True, tb_active = False, tb_multiline = multiline,
      tb_text = [], tb_lines = [[]]\<rparr>"

definition initial_game :: game where
  "initial_game =
     \<lparr>current_state = MAIN_MENU,
      previous_state = None,
      status_message = ''Welcome to Decision Game'',
      status_color = (0, 150, 255),
      user = None,
      token = None,
      is_loading = False,
      loading_message = ''Loading...'',
      loading_target_state = None,
      loading_progress = 0,
      loading_start_time = 0,
      loading_operation = None,
      loading_completed = False,
      loading_animation_frames = 0,
      scenario_text = [],
      conversation_questions = [],
      current_question_index = 0,
      user_responses = [],
      conversation_complete = False,
      conversation_summary = None,
      mbti_questions = [],
      current_mbti_index = 0,
      mbti_answers = [],
      mbti_result = None,
      username_box = new_textbox 350 200 300 40 False,
      password_box = new_textbox 350 270 300 40 False,
      scenario_input_box = new_textbox 150 250 700 200 True,
      response_input = None,
      login_submit_button = new_button 400 350 200 50 True,
      back_button = new_button 10 30 120 40 True,
      next_question_button = new_button 575 530 150 50 False,
      previous_question_button = new_button 275 530 150 50 False,
      finish_conversation_button = new_button 400 530 200 50 False,
      explore_more_button = new_button 225 500 250 50 False,
      new_topic_button = new_button 525 500 250 50 False\<rparr>"

text \<open>
  The end of \<^verbatim>\<open>_perform_scenario_analysis\<close>: the conversation is initialised and
  \<^verbatim>\<open>setup_conversation_ui\<close> builds the response box. The source takes its questions
  from \<^verbatim>\<open>generate_conversation_questions\<close>; \<open>initialize_conversation\<close> takes any list.
\<close>

definition setup_conversation_ui :: "game \<Rightarrow> game" where
  "setup_conversation_ui g =
     g\<lparr>response_input := Some (new_textbox 150 480 700 80 True),
       next_question_button := (next_question_button g)\<lparr>b_visible := True\<rparr>,
       previous_question_button :=
         (previous_question_button g)\<lparr>b_visible := (0 < current_question_index g)\<rparr>,
       explore_more_button := (explore_more_button g)\<lparr>b_visible := False\<rparr>,
       new_topic_button := (new_topic_button g)\<lparr>b_visible := False\<rparr>\<rparr>"

definition generate_conversation_questions :: "string list" where
  "generate_conversation_questions =
     [''Can you tell me more about what's making this decision difficult for you?'',
      ''What are the main options you're considering?'',
      ''What would be the ideal outcome of this decision?'',
      ''Have you faced similar decisions before? How did those turn out?'',
      ''What values or principles are important to you in making this decision?'']"

definition initialize_conversation :: "string list \<Rightarrow> game \<Rightarrow> game" where
  "initialize_conversation questions g =
     setup_conversation_ui
       (g\<lparr>conversation_questions := questions,
          current_question_index := 0,
          user_responses := [],
          conversation_complete := False\<rparr>)"

section \<open>The scoring rule in the specification's words\<close>

text \<open>
  The rule as the specification gives it: an answer index \<open>a\<close> to a question tagged
  with the dimension \<open>dim\<close> contributes \<open>2 - a\<close> to the first pole named in \<open>dim\<close>, and
  the contributions add up over the answered questions. \<open>pole_total dim\<close> is that sum.
\<close>

definition contribution :: "string \<Rightarrow> question list \<Rightarrow> int \<times> int \<Rightarrow> int" where
  "contribution dim questions item =
     (case find_question questions (fst item) of
        None \<Rightarrow> 0
      | Some q \<Rightarrow> if dimension q = Some dim then 2 - snd item else 0)"

definition pole_total :: "string \<Rightarrow> question list \<Rightarrow> (int \<times> int) list \<Rightarrow> int" where
  "pole_total dim questions answers = sum_list (map (contribution dim questions) answers)"

section \<open>Back navigation\<close>

lemma truthy_state_Some: "truthy_state (Some s)"
  by (cases s) (simp_all add: truthy_state_def)

lemma truthy_state_None: "\<not> truthy_state None"
  by (simp add: truthy_state_def)

text \<open>
  Claim C1. After a single \<open>change_state\<close> to a screen \<open>B\<close> that saves the previous
  screen, \<open>back_to_previous_state\<close> restores the screen that was current before, and
  records \<open>B\<close> as the previous one. Whenever a previous screen \<open>A\<close> is recorded,
  \<open>back_to_previous_state\<close> swaps current and previous, and calling it twice in a row
  gives back the state before the first call.
\<close>

theorem back_after_goto:
  "current_state (back_to_previous_state (change_state B True g)) = current_state g
   \<and> previous_state (back_to_previous_state (change_state B True g)) = Some B
   \<and> back_to_previous_state (g\<lparr>previous_state := Some A\<rparr>)
       = g\<lparr>current_state := A, previous_state := Some (current_state g)\<rparr>
   \<and> back_to_previous_state (back_to_previous_state (g\<lparr>previous_state := Some A\<rparr>))
       = g\<lparr>previous_state := Some A\<rparr>"
  by (simp add: back_to_previous_state_def change_state_def truthy_state_Some)

theorem back_after_goto_witness:
  "current_state (back_to_previous_state (change_state LOGIN True initial_game)) = MAIN_MENU
   \<and> current_state (back_to_previous_state (back_to_previous_state
         (change_state LOGIN True initial_game))) = LOGIN"
  using back_after_goto [of LOGIN initial_game MAIN_MENU]
  by (simp add: initial_game_def change_state_def back_to_previous_state_def truthy_state_Some)

text \<open>
  Claim C10. When no previous screen is recorded (\<open>previous_state\<close> is \<open>None\<close>),
  \<open>back_to_previous_state\<close> sets the current screen to \<open>SCENARIO\<close> and changes nothing
  else: there is no swap, and \<open>previous_state\<close> stays \<open>None\<close>.
\<close>

theorem back_without_previous:
  assumes "previous_state g = None"
  shows "back_to_previous_state g = g\<lparr>current_state := SCENARIO\<rparr>
         \<and> previous_state (back_to_previous_state g) = None"
  using assms by (simp add: back_to_previous_state_def truthy_state_None)

theorem back_without_previous_witness:
  "previous_state initial_game = None
   \<and> back_to_previous_state initial_game = initial_game\<lparr>current_state := SCENARIO\<rparr>
   \<and> previous_state (back_to_previous_state initial_game) = None"
  using back_without_previous [of initial_game] by (simp add: initial_game_def)

section \<open>Bounds on the progress ramp\<close>

lemma bit_length_nonneg: "0 \<le> bit_length n"
proof (induction n rule: bit_length.induct)
  case (1 n)
  then show ?case by (subst bit_length.simps) simp
qed

lemma bit_length_upper: "n < 2 ^ nat (bit_length n)"
proof (induction n rule: bit_length.induct)
  case (1 n)
  show ?case
  proof (cases "n \<le> 0")
    case True
    then show ?thesis by (subst bit_length.simps) simp
  next
    case False
    then have ih: "n div 2 < 2 ^ nat (bit_length (n div 2))" using 1 by simp
    have eq: "nat (bit_length n) = Suc (nat (bit_length (n div 2)))"
      using False bit_length_nonneg [of "n div 2"] by (subst bit_length.simps) simp
    have "n < 2 * (n div 2 + 1)" by simp
    also have "\<dots> \<le> 2 * 2 ^ nat (bit_length (n div 2))" using ih by simp
    finally show ?thesis by (simp add: eq)
  qed
qed

lemma bit_length_le: "n < 2 ^ k \<Longrightarrow> bit_length n \<le> int k"
proof (induction n arbitrary: k rule: bit_length.induct)
  case (1 n)
  show ?case
  proof (cases "n \<le> 0")
    case True
    then show ?thesis by (subst bit_length.simps) simp
  next
    case False
    then obtain k' where k: "k = Suc k'" using 1(2) by (cases k) auto
    have "n div 2 < 2 ^ k'" using 1(2) k by simp
    then have "bit_length (n div 2) \<le> int k'" using 1(1) False by simp
    then show ?thesis using False k by (subst bit_length.simps) simp
  qed
qed

lemma bit_length_mult_le:
  assumes "0 < a" and "0 < b"
  shows "bit_length (a * b) \<le> bit_length a + bit_length b"
proof -
  have "a * b < 2 ^ nat (bit_length a) * 2 ^ nat (bit_length b)"
    using bit_length_upper [of a] bit_length_upper [of b] assms
    by (intro mult_strict_mono) simp_all
  then have "a * b < 2 ^ (nat (bit_length a) + nat (bit_length b))"
    by (simp add: power_add)
  from bit_length_le [OF this] show ?thesis
    using bit_length_nonneg [of a] bit_length_nonneg [of b] by simp
qed

lemma bit_length_mono: "a \<le> b \<Longrightarrow> bit_length a \<le> bit_length b"
proof -
  assume "a \<le> b"
  then have "a < 2 ^ nat (bit_length b)" using bit_length_upper [of b] by simp
  from bit_length_le [OF this] show ?thesis using bit_length_nonneg [of b] by simp
qed

lemma div_le_of_le_mult:
  fixes a b K :: int
  assumes "0 < b" and "a \<le> K * b"
  shows "a div b \<le> K"
proof -
  have "a div b \<le> (K * b) div b" using assms by (intro zdiv_mono1) simp_all
  then show ?thesis using assms(1) by simp
qed

text \<open>Rounding never crosses an integer multiple of the grid step.\<close>

lemma round_half_even_le:
  assumes "0 < d" and "a \<le> M * d"
  shows "round_half_even a d \<le> M"
proof -
  have q: "a div d \<le> M" using assms by (rule div_le_of_le_mult)
  show ?thesis
  proof (cases "a div d = M")
    case True
    have "a = d * (a div d) + a mod d" by simp
    then have "a mod d \<le> 0" using True assms(2) by (simp add: mult.commute)
    moreover have "0 \<le> a mod d" using assms(1) by simp
    ultimately have "a mod d = 0" by simp
    then show ?thesis using True assms(1) by (simp add: round_half_even_def round_pick_def)
  next
    case False
    then have "a div d + 1 \<le> M" using q by simp
    then show ?thesis by (simp add: round_half_even_def round_pick_def)
  qed
qed

lemma round_half_even_nonneg:
  assumes "0 < d" and "0 \<le> a"
  shows "0 \<le> round_half_even a d"
proof -
  have "0 \<le> a div d" using assms by (simp add: pos_imp_zdiv_nonneg_iff)
  then show ?thesis by (simp add: round_half_even_def round_pick_def)
qed

text \<open>
  The float nearest to a fraction between \<open>0\<close> and an integer \<open>K\<close> below \<open>2 ^ 52\<close> lies
  between \<open>0\<close> and \<open>K\<close>: the grid step is at most \<open>1\<close> there, so \<open>K\<close> is on the grid.
\<close>

lemma nearest_bounds:
  assumes n: "0 \<le> n" and d: "0 < d" and K: "0 < K" and le: "n \<le> K * d" and K52: "K < 2 ^ 52"
  shows "0 \<le> fst (ratio (nearest n d)) \<and> 0 < snd (ratio (nearest n d))
         \<and> fst (ratio (nearest n d)) \<le> K * snd (ratio (nearest n d))"
proof (cases "n = 0")
  case True
  then show ?thesis using K by (simp add: nearest_def ratio_def)
next
  case False
  then have npos: "0 < n" using n by simp
  define e where "e = floor_log2 n d - 52"
  have "bit_length n \<le> bit_length (K * d)" using le by (rule bit_length_mono)
  also have "\<dots> \<le> bit_length K + bit_length d" using K d by (rule bit_length_mult_le)
  also have "bit_length K \<le> 52" using bit_length_le [OF K52] by simp
  finally have t: "bit_length n - bit_length d \<le> 52" by simp
  have "floor_log2 n d \<le> bit_length n - bit_length d"
    by (simp add: floor_log2_def adjust_log2_def)
  then have e0: "e \<le> 0" using t by (simp add: e_def)
  define m where "m = scaled_round n d e"
  have nr: "nearest n d = (m, e)"
    using npos by (simp add: nearest_def nearest_at_def e_def m_def)
  show ?thesis
  proof (cases "e = 0")
    case True
    have "m = round_half_even n d" using True by (simp add: m_def scaled_round_def)
    then have "0 \<le> m" "m \<le> K" using round_half_even_nonneg [OF d n] round_half_even_le [OF d le]
      by simp_all
    then show ?thesis using True by (simp add: nr ratio_def)
  next
    case False
    then have neg: "e < 0" using e0 by simp
    have m: "m = round_half_even (n * 2 ^ nat (- e)) d" using neg by (simp add: m_def scaled_round_def)
    have "n * 2 ^ nat (- e) \<le> (K * 2 ^ nat (- e)) * d"
      using le by (simp add: mult.assoc mult.left_commute mult.commute)
    then have up: "m \<le> K * 2 ^ nat (- e)" unfolding m using d by (intro round_half_even_le)
    have lo: "0 \<le> m" unfolding m using d n by (intro round_half_even_nonneg) simp_all
    show ?thesis using neg up lo by (simp add: nr ratio_def)
  qed
qed

lemmas fl_defs = py_int_def fmul_def fdiv_def float_of_int_def ratio_def nearest_def nearest_at_def
  scaled_round_def floor_log2_def adjust_log2_def round_half_even_def round_pick_def bit_length.simps

lemma ratio_float_2000: "ratio (float_of_int 2000) = (8796093022208000, 4398046511104)"
  by (simp add: fl_defs)

lemma ratio_float_100: "ratio (float_of_int 100) = (7036874417766400, 70368744177664)"
  by (simp add: fl_defs)

lemma progress_ramp_bounds:
  assumes "0 \<le> t" and "t \<le> 2000"
  shows "0 \<le> progress_ramp t \<and> progress_ramp t \<le> 100"
proof -
  obtain a0 b0 where r0: "ratio (float_of_int t) = (a0, b0)" by fastforce
  have "0 \<le> fst (ratio (nearest t 1)) \<and> 0 < snd (ratio (nearest t 1))
        \<and> fst (ratio (nearest t 1)) \<le> 2000 * snd (ratio (nearest t 1))"
    using assms by (intro nearest_bounds) simp_all
  then have p0: "0 \<le> a0" "0 < b0" "a0 \<le> 2000 * b0"
    using r0 by (simp_all add: float_of_int_def)
  define x1 where "x1 = fdiv (float_of_int t) (float_of_int 2000)"
  have x1: "x1 = nearest (a0 * 4398046511104) (b0 * 8796093022208000)"
    by (simp add: x1_def fdiv_def r0 ratio_float_2000)
  obtain a1 b1 where r1: "ratio x1 = (a1, b1)" by fastforce
  have "0 \<le> fst (ratio x1) \<and> 0 < snd (ratio x1) \<and> fst (ratio x1) \<le> 1 * snd (ratio x1)"
    unfolding x1 using p0 by (intro nearest_bounds) simp_all
  then have p1: "0 \<le> a1" "0 < b1" "a1 \<le> b1" using r1 by simp_all
  define x2 where "x2 = fmul x1 (float_of_int 100)"
  have x2: "x2 = nearest (a1 * 7036874417766400) (b1 * 70368744177664)"
    by (simp add: x2_def fmul_def r1 ratio_float_100)
  obtain a2 b2 where r2: "ratio x2 = (a2, b2)" by fastforce
  have "0 \<le> fst (ratio x2) \<and> 0 < snd (ratio x2) \<and> fst (ratio x2) \<le> 100 * snd (ratio x2)"
    unfolding x2 using p1 by (intro nearest_bounds) simp_all
  then have p2: "0 \<le> a2" "0 < b2" "a2 \<le> 100 * b2" using r2 by simp_all
  have pr: "progress_ramp t = sgn a2 * (\<bar>a2\<bar> div b2)"
    by (simp add: progress_ramp_def py_int_def r2 x2_def [symmetric] x1_def [symmetric])
  show ?thesis
  proof (cases "a2 = 0")
    case True
    then show ?thesis by (simp add: pr)
  next
    case False
    then have "0 < a2" using p2(1) by simp
    then have "progress_ramp t = a2 div b2" by (simp add: pr)
    moreover have "0 \<le> a2 div b2" using p2 by (simp add: pos_imp_zdiv_nonneg_iff)
    moreover have "a2 div b2 \<le> 100" using p2(2,3) by (rule div_le_of_le_mult)
    ultimately show ?thesis by simp
  qed
qed

lemma le_div_of_mult_le:
  fixes a b M :: int
  assumes "0 < b" and "M * b \<le> a"
  shows "M \<le> a div b"
proof -
  have "(M * b) div b \<le> a div b" using assms by (intro zdiv_mono1) simp_all
  then show ?thesis using assms(1) by simp
qed

lemma round_half_even_ge:
  assumes "0 < d" and "M * d \<le> a"
  shows "M \<le> round_half_even a d"
proof -
  have "M \<le> a div d" using assms by (rule le_div_of_mult_le)
  then show ?thesis by (simp add: round_half_even_def round_pick_def)
qed

lemma floor_log2_le_bits: "floor_log2 n d \<le> bit_length n - bit_length d"
  by (simp add: floor_log2_def adjust_log2_def)

lemma floor_log2_below_one:
  assumes "n < d"
  shows "floor_log2 n d \<le> - 1"
proof -
  have t: "bit_length n - bit_length d \<le> 0"
    using bit_length_mono [of n d] assms by simp
  show ?thesis
  proof (cases "bit_length n - bit_length d = 0")
    case True
    then show ?thesis using assms by (simp add: floor_log2_def adjust_log2_def)
  next
    case False
    then have "bit_length n - bit_length d \<le> - 1" using t by simp
    then show ?thesis using floor_log2_le_bits [of n d] by simp
  qed
qed

text \<open>
  The same for a grid of step \<open>2 ^ - j\<close>: when the float's exponent is at most \<open>- j\<close>,
  rounding crosses no multiple of \<open>2 ^ - j\<close>.
\<close>

lemma nearest_between:
  assumes n: "0 \<le> n" and d: "0 < d"
      and e: "0 < n \<Longrightarrow> floor_log2 n d \<le> 52 - int j"
      and lo: "L * d \<le> n * 2 ^ j" and hi: "n * 2 ^ j \<le> K * d"
  shows "0 < snd (ratio (nearest n d))
         \<and> L * snd (ratio (nearest n d)) \<le> fst (ratio (nearest n d)) * 2 ^ j
         \<and> fst (ratio (nearest n d)) * 2 ^ j \<le> K * snd (ratio (nearest n d))"
proof (cases "n = 0")
  case True
  have "L * d \<le> 0" using lo True by simp
  then have L: "L \<le> 0" using d by (simp add: mult_le_0_iff)
  have "0 \<le> K * d" using hi True by simp
  then have K: "0 \<le> K" using d by (simp add: zero_le_mult_iff)
  show ?thesis using True L K by (simp add: nearest_def ratio_def)
next
  case False
  then have npos: "0 < n" using n by simp
  define e' where "e' = floor_log2 n d - 52"
  have e0: "e' \<le> - int j" using e [OF npos] by (simp add: e'_def)
  define s where "s = nat (- e')"
  define r where "r = s - j"
  have sj: "s = j + r" using e0 by (simp add: s_def r_def)
  define m where "m = (if 0 \<le> e' then round_half_even n d else round_half_even (n * 2 ^ s) d)"
  have m_eq: "m = round_half_even (n * 2 ^ s) d"
  proof (cases "0 \<le> e'")
    case True
    then have "s = 0" by (simp add: s_def)
    then show ?thesis using True by (simp add: m_def)
  next
    case False
    then show ?thesis by (simp add: m_def)
  qed
  have rat: "ratio (nearest n d) = (m, 2 ^ s)"
  proof (cases "0 \<le> e'")
    case True
    then have "e' = 0" using e0 by simp
    then show ?thesis
      using npos by (simp add: nearest_def nearest_at_def e'_def [symmetric] scaled_round_def
          ratio_def m_def s_def)
  next
    case False
    then show ?thesis
      using npos by (simp add: nearest_def nearest_at_def e'_def [symmetric] scaled_round_def
          ratio_def m_def s_def)
  qed
  have "(L * 2 ^ r) * d = (L * d) * 2 ^ r" by (simp add: mult.commute mult.left_commute)
  also have "\<dots> \<le> (n * 2 ^ j) * 2 ^ r" using lo by (intro mult_right_mono) simp_all
  also have "\<dots> = n * 2 ^ s" by (simp add: sj power_add)
  finally have "L * 2 ^ r \<le> m" unfolding m_eq using d by (intro round_half_even_ge)
  then have "(L * 2 ^ r) * 2 ^ j \<le> m * 2 ^ j" by (intro mult_right_mono) simp_all
  then have low: "L * 2 ^ s \<le> m * 2 ^ j" by (simp add: sj power_add mult.commute mult.left_commute)
  have "n * 2 ^ s = (n * 2 ^ j) * 2 ^ r" by (simp add: sj power_add)
  also have "\<dots> \<le> (K * d) * 2 ^ r" using hi by (intro mult_right_mono) simp_all
  also have "\<dots> = (K * 2 ^ r) * d" by (simp add: mult.commute mult.left_commute)
  finally have "m \<le> K * 2 ^ r" unfolding m_eq using d by (intro round_half_even_le)
  then have "m * 2 ^ j \<le> (K * 2 ^ r) * 2 ^ j" by (intro mult_right_mono) simp_all
  then have high: "m * 2 ^ j \<le> K * 2 ^ s" by (simp add: sj power_add mult.commute mult.left_commute)
  show ?thesis using low high by (simp add: rat)
qed


lemma div_bounds:
  fixes x d :: int
  assumes "0 < d"
  shows "d * (x div d) \<le> x" and "x - (d - 1) \<le> d * (x div d)"
proof -
  have eq: "x = d * (x div d) + x mod d" by simp
  have m: "0 \<le> x mod d" "x mod d < d" using assms by simp_all
  show "d * (x div d) \<le> x" using eq m(1) by linarith
  show "x - (d - 1) \<le> d * (x div d)" using eq m(2) by linarith
qed

lemma ratio_float_exact:
  assumes "0 \<le> t" and "t < 2048"
  shows "0 < snd (ratio (float_of_int t))
         \<and> fst (ratio (float_of_int t)) = t * snd (ratio (float_of_int t))"
proof -
  have fl: "0 < t \<Longrightarrow> floor_log2 t 1 \<le> 52 - int 0"
  proof -
    have "t < 2 ^ 11" using assms(2) by simp
    then have "bit_length t \<le> 11" using bit_length_le [of t 11] by simp
    then show ?thesis
      using floor_log2_le_bits [of t 1] bit_length_nonneg [of 1] by simp
  qed
  have "0 < snd (ratio (nearest t 1))
         \<and> t * snd (ratio (nearest t 1)) \<le> fst (ratio (nearest t 1)) * 2 ^ 0
         \<and> fst (ratio (nearest t 1)) * 2 ^ 0 \<le> t * snd (ratio (nearest t 1))"
    using assms(1) fl by (intro nearest_between) simp_all
  then show ?thesis by (simp add: float_of_int_def)
qed

text \<open>
  The ramp against exact arithmetic: \<^verbatim>\<open>int(t / 2000 * 100)\<close> is \<open>t div 20\<close>, except that
  at a multiple of 20 the two roundings may leave the product just below the integer
  (as at 580, where Python gives 28).
\<close>

lemma progress_ramp_between:
  assumes t0: "0 \<le> t" and t2: "t < 2000"
  shows "(t - 1) div 20 \<le> progress_ramp t \<and> progress_ramp t \<le> t div 20"
proof -
  obtain a0 b0 where r0: "ratio (float_of_int t) = (a0, b0)" by fastforce
  have p0: "0 < b0" "a0 = t * b0"
    using ratio_float_exact [of t] t0 t2 r0 by simp_all
  define L1 where "L1 = (t * 9007199254740992) div 2000"
  have L1: "2000 * L1 \<le> t * 9007199254740992" "t * 9007199254740992 - 1999 \<le> 2000 * L1"
    unfolding L1_def using div_bounds [of 2000 "t * 9007199254740992"] by simp_all
  have L1n: "0 \<le> L1" unfolding L1_def using t0 by (simp add: pos_imp_zdiv_nonneg_iff)
  have L1u: "L1 + 1 \<le> 9007199254740992" using L1(1) t2 by linarith
  define x1 where "x1 = fdiv (float_of_int t) (float_of_int 2000)"
  have x1: "x1 = nearest (a0 * 4398046511104) (b0 * 8796093022208000)"
    by (simp add: x1_def fdiv_def r0 ratio_float_2000)
  obtain a1 b1 where r1: "ratio x1 = (a1, b1)" by fastforce
  have lt: "a0 * 4398046511104 < b0 * 8796093022208000"
  proof -
    have "t * 4398046511104 < 8796093022208000" using t2 by simp
    then have "(t * 4398046511104) * b0 < 8796093022208000 * b0"
      using p0(1) by (intro mult_strict_right_mono)
    then show ?thesis by (simp add: p0(2) mult.commute mult.left_commute)
  qed
  have lo1: "L1 * (b0 * 8796093022208000) \<le> (a0 * 4398046511104) * 2 ^ 53"
  proof -
    have "(L1 * 8796093022208000) * b0 \<le> (t * 4398046511104 * 2 ^ 53) * b0"
      using L1(1) p0(1) by (intro mult_right_mono) simp_all
    then show ?thesis by (simp add: p0(2) mult.commute mult.left_commute)
  qed
  have hi1: "(a0 * 4398046511104) * 2 ^ 53 \<le> (L1 + 1) * (b0 * 8796093022208000)"
  proof -
    have "(t * 4398046511104 * 2 ^ 53) * b0 \<le> ((L1 + 1) * 8796093022208000) * b0"
      using L1(2) p0(1) by (intro mult_right_mono) simp_all
    then show ?thesis by (simp add: p0(2) mult.commute mult.left_commute)
  qed
  have "0 < snd (ratio x1) \<and> L1 * snd (ratio x1) \<le> fst (ratio x1) * 2 ^ 53
        \<and> fst (ratio x1) * 2 ^ 53 \<le> (L1 + 1) * snd (ratio x1)"
    unfolding x1
  proof (intro nearest_between)
    show "0 \<le> a0 * 4398046511104" using p0 t0 by simp
    show "0 < b0 * 8796093022208000" using p0 by simp
    show "floor_log2 (a0 * 4398046511104) (b0 * 8796093022208000) \<le> 52 - int 53"
      using floor_log2_below_one [OF lt] by simp
    show "L1 * (b0 * 8796093022208000) \<le> a0 * 4398046511104 * 2 ^ 53" by (rule lo1)
    show "a0 * 4398046511104 * 2 ^ 53 \<le> (L1 + 1) * (b0 * 8796093022208000)" by (rule hi1)
  qed
  then have p1: "0 < b1" "L1 * b1 \<le> a1 * 9007199254740992"
    "a1 * 9007199254740992 \<le> (L1 + 1) * b1"
    using r1 by simp_all
  have a1n: "0 \<le> a1"
  proof -
    have "0 \<le> L1 * b1" using L1n p1(1) by simp
    then have "0 \<le> a1 * 9007199254740992" using p1(2) by simp
    then show ?thesis by simp
  qed
  have a1b: "a1 \<le> b1"
  proof -
    have "(L1 + 1) * b1 \<le> 9007199254740992 * b1"
      using L1u p1(1) by (intro mult_right_mono) simp_all
    then have "a1 * 9007199254740992 \<le> b1 * 9007199254740992" using p1(3) by simp
    then show ?thesis by simp
  qed
  define L2 where "L2 = (100 * L1) div 256"
  define K2 where "K2 = (100 * (L1 + 1)) div 256 + 1"
  have L2: "256 * L2 \<le> 100 * L1" "100 * L1 - 255 \<le> 256 * L2"
    unfolding L2_def using div_bounds [of 256 "100 * L1"] by simp_all
  have K2: "100 * (L1 + 1) \<le> 256 * K2" "256 * K2 \<le> 100 * L1 + 356"
    unfolding K2_def using div_bounds [of 256 "100 * (L1 + 1)"] by simp_all
  have L2n: "0 \<le> L2" unfolding L2_def using L1n by (simp add: pos_imp_zdiv_nonneg_iff)
  define x2 where "x2 = fmul x1 (float_of_int 100)"
  have x2: "x2 = nearest (a1 * 7036874417766400) (b1 * 70368744177664)"
    by (simp add: x2_def fmul_def r1 ratio_float_100)
  obtain a2 b2 where r2: "ratio x2 = (a2, b2)" by fastforce
  have fl2: "floor_log2 (a1 * 7036874417766400) (b1 * 70368744177664) \<le> 52 - int 45"
  proof -
    have "a1 * 7036874417766400 \<le> 100 * (b1 * 70368744177664)" using a1b by simp
    then have "bit_length (a1 * 7036874417766400) \<le> bit_length (100 * (b1 * 70368744177664))"
      by (rule bit_length_mono)
    also have "\<dots> \<le> bit_length 100 + bit_length (b1 * 70368744177664)"
      using p1(1) by (intro bit_length_mult_le) simp_all
    also have "bit_length 100 \<le> 7" using bit_length_le [of 100 7] by simp
    finally show ?thesis
      using floor_log2_le_bits [of "a1 * 7036874417766400" "b1 * 70368744177664"] by simp
  qed
  have lo2: "L2 * (b1 * 70368744177664) \<le> (a1 * 7036874417766400) * 2 ^ 45"
  proof -
    have "(256 * L2) * b1 \<le> (100 * L1) * b1" using L2(1) p1(1) by (intro mult_right_mono) simp_all
    then have "256 * (L2 * b1) \<le> 100 * (L1 * b1)" by (simp only: mult.assoc)
    then have "256 * (L2 * b1) \<le> 100 * (a1 * 9007199254740992)" using p1(2) by linarith
    then have "L2 * b1 \<le> a1 * 3518437208883200" by simp
    then have "(L2 * b1) * 70368744177664 \<le> (a1 * 3518437208883200) * 70368744177664"
      by (intro mult_right_mono) simp_all
    then show ?thesis by (simp add: mult.commute mult.left_commute)
  qed
  have hi2: "(a1 * 7036874417766400) * 2 ^ 45 \<le> K2 * (b1 * 70368744177664)"
  proof -
    have "(100 * (L1 + 1)) * b1 \<le> (256 * K2) * b1" using K2(1) p1(1) by (intro mult_right_mono) simp_all
    then have "100 * ((L1 + 1) * b1) \<le> 256 * (K2 * b1)" by (simp only: mult.assoc)
    then have "100 * (a1 * 9007199254740992) \<le> 256 * (K2 * b1)" using p1(3) by linarith
    then have "a1 * 3518437208883200 \<le> K2 * b1" by simp
    then have "(a1 * 3518437208883200) * 70368744177664 \<le> (K2 * b1) * 70368744177664"
      by (intro mult_right_mono) simp_all
    then show ?thesis by (simp add: mult.commute mult.left_commute)
  qed
  have "0 < snd (ratio x2) \<and> L2 * snd (ratio x2) \<le> fst (ratio x2) * 2 ^ 45
        \<and> fst (ratio x2) * 2 ^ 45 \<le> K2 * snd (ratio x2)"
    unfolding x2
  proof (intro nearest_between)
    show "0 \<le> a1 * 7036874417766400" using a1n by simp
    show "0 < b1 * 70368744177664" using p1(1) by simp
    show "floor_log2 (a1 * 7036874417766400) (b1 * 70368744177664) \<le> 52 - int 45" by (rule fl2)
    show "L2 * (b1 * 70368744177664) \<le> a1 * 7036874417766400 * 2 ^ 45" by (rule lo2)
    show "a1 * 7036874417766400 * 2 ^ 45 \<le> K2 * (b1 * 70368744177664)" by (rule hi2)
  qed
  then have p2: "0 < b2" "L2 * b2 \<le> a2 * 35184372088832" "a2 * 35184372088832 \<le> K2 * b2"
    using r2 by simp_all
  have a2n: "0 \<le> a2"
  proof -
    have "0 \<le> L2 * b2" using L2n p2(1) by simp
    then have "0 \<le> a2 * 35184372088832" using p2(2) by simp
    then show ?thesis by simp
  qed
  have pr: "progress_ramp t = a2 div b2"
  proof -
    have "progress_ramp t = sgn a2 * (\<bar>a2\<bar> div b2)"
      by (simp add: progress_ramp_def py_int_def r2 x2_def [symmetric] x1_def [symmetric])
    then show ?thesis using a2n by (cases "a2 = 0") simp_all
  qed
  define q where "q = a2 div b2"
  have qb: "q * b2 \<le> a2" unfolding q_def using div_bounds(1) [OF p2(1), of a2]
    by (simp add: mult.commute)
  have upper: "q * 35184372088832 \<le> K2"
  proof -
    have "(q * b2) * 35184372088832 \<le> a2 * 35184372088832" using qb by simp
    then have "(q * 35184372088832) * b2 \<le> K2 * b2"
      using p2(3) by (simp add: mult.commute mult.left_commute)
    then show ?thesis using p2(1) by (simp add: mult_le_cancel_right)
  qed
  define lq where "lq = (t - 1) div 20"
  define r where "r = t div 20"
  have lq: "20 * lq \<le> t - 1" unfolding lq_def using div_bounds(1) [of 20 "t - 1"] by simp
  have r: "t \<le> 20 * r + 19" unfolding r_def using div_bounds(2) [of 20 t] by simp
  have "lq * 35184372088832 \<le> L2" using lq L2(2) L1(2) by linarith
  then have "(lq * 35184372088832) * b2 \<le> L2 * b2" using p2(1) by (intro mult_right_mono) simp_all
  then have "(lq * b2) * 35184372088832 \<le> a2 * 35184372088832"
    using p2(2) by (simp add: mult.commute mult.left_commute)
  then have "lq * b2 \<le> a2" by simp
  then have lower: "lq \<le> q" unfolding q_def using p2(1) by (intro le_div_of_mult_le)
  have "q \<le> r" using upper K2(2) L1(1) r by linarith
  then show ?thesis using lower by (simp add: pr q_def lq_def r_def)
qed

lemma progress_ramp_exact:
  assumes "0 \<le> t" and "t < 2000" and "t mod 20 \<noteq> 0"
  shows "progress_ramp t = t div 20"
proof -
  have eq: "t = 20 * (t div 20) + t mod 20" by simp
  have m: "0 \<le> t mod 20" "t mod 20 < 20" by simp_all
  have "20 * (t div 20) \<le> t - 1" using eq m(1) assms(3) by linarith
  then have "(t div 20) * 20 \<le> t - 1" by simp
  then have "t div 20 \<le> (t - 1) div 20" by (intro le_div_of_mult_le) simp_all
  then show ?thesis using progress_ramp_between [OF assms(1,2)] by simp
qed

lemma progress_ramp_mono:
  assumes "0 \<le> s" and "s \<le> t" and "t < 2000"
  shows "progress_ramp s \<le> progress_ramp t"
proof (cases "s = t")
  case True
  then show ?thesis by simp
next
  case False
  then have "s \<le> t - 1" using assms(2) by simp
  then have "s div 20 \<le> (t - 1) div 20" by (intro zdiv_mono1) simp_all
  moreover have "progress_ramp s \<le> s div 20"
    using progress_ramp_between [of s] assms by simp
  moreover have "(t - 1) div 20 \<le> progress_ramp t"
    using progress_ramp_between [of t] assms by simp
  ultimately show ?thesis by simp
qed

lemma progress_ramp_values: "progress_ramp 1000 = 50" "progress_ramp 580 = 28"
  by (simp_all add: progress_ramp_def fl_defs)

section \<open>Loading lifecycle: facts about one step\<close>

lemma update_loading_live:
  assumes "loading_operation g = Some th" and "is_alive th" and "\<not> loading_completed g"
  shows "update_loading now g =
           g\<lparr>loading_animation_frames := animation_frame (now - loading_start_time g)\<rparr>"
  using assms by (simp add: update_loading_def Let_def)

lemma update_loading_fields:
  "loading_start_time (update_loading now g) = loading_start_time g"
  "loading_operation (update_loading now g) = loading_operation g"
  "loading_target_state (update_loading now g) = loading_target_state g"
  by (simp_all add: update_loading_def Let_def)

lemma update_loading_keeps_completed:
  "loading_completed g \<Longrightarrow> loading_completed (update_loading now g)"
  by (simp add: update_loading_def Let_def)

lemma update_loading_forced:
  assumes "loading_operation g = None \<or> loading_completed g
           \<or> \<not> is_alive (the (loading_operation g))"
      and "2500 < now - loading_start_time g"
  shows "loading_completed (update_loading now g)"
  using assms by (auto simp add: update_loading_def Let_def)

lemma update_loading_exit:
  assumes "loading_completed g" and "3500 < now - loading_start_time g"
  shows "\<not> is_loading (update_loading now g) \<and> current_state (update_loading now g) = LOGIN"
  using assms by (simp add: update_loading_def Let_def)

lemma update_not_loading: "\<not> is_loading g \<Longrightarrow> update now g = g"
  by (simp add: update_def)

lemma run_updates_not_loading: "\<not> is_loading g \<Longrightarrow> run_updates ticks g = g"
  by (induction ticks) (simp_all add: update_not_loading)

lemma update_fields:
  "loading_start_time (update now g) = loading_start_time g"
  by (simp add: update_def Let_def update_loading_fields)

lemma update_keeps_completed:
  "loading_completed g \<Longrightarrow> loading_completed (update now g)"
  by (simp add: update_def Let_def update_loading_keeps_completed)

lemma update_two_ticks:
  assumes "loading_operation g = None \<or> loading_completed g
           \<or> \<not> is_alive (the (loading_operation g))"
      and "2500 < now1 - loading_start_time g" and "3500 < now2 - loading_start_time g"
  shows "\<not> is_loading (update now2 (update now1 g))"
proof (cases "is_loading (update now1 g)")
  case False
  then show ?thesis by (simp add: update_not_loading)
next
  case True
  then have l: "is_loading g" by (auto simp add: update_def split: if_splits)
  have c: "loading_completed (update_loading now1 g)"
    using assms(1,2) by (rule update_loading_forced)
  have none: "loading_target_state (update_loading now1 g) = None"
    using True l c by (auto simp add: update_def Let_def split: if_splits)
  have eq: "update now1 g = update_loading now1 g"
    using l none by (simp add: update_def Let_def)
  have c1: "loading_completed (update now1 g)" using c eq by simp
  have st: "3500 < now2 - loading_start_time (update now1 g)"
    using assms(3) by (simp add: update_fields)
  have ex: "\<not> is_loading (update_loading now2 (update now1 g))"
    using update_loading_exit [OF c1 st] by simp
  show ?thesis
    using True ex by (simp add: update_def [of now2] Let_def)
qed

section \<open>The watchdog\<close>

lemma update_live:
  assumes "is_loading g" and "loading_operation g = Some th" and "is_alive th"
      and "\<not> loading_completed g"
  shows "update now g =
           g\<lparr>loading_animation_frames := animation_frame (now - loading_start_time g)\<rparr>"
  using assms by (simp add: update_def update_loading_live Let_def)

lemma run_updates_live:
  assumes "is_loading g" and "loading_operation g = Some th" and "is_alive th"
      and "\<not> loading_completed g"
  shows "is_loading (run_updates ticks g) \<and> \<not> loading_completed (run_updates ticks g)
         \<and> current_state (run_updates ticks g) = current_state g"
  using assms
proof (induction ticks arbitrary: g)
  case Nil
  then show ?case by simp
next
  case (Cons now ticks)
  let ?g = "g\<lparr>loading_animation_frames := animation_frame (now - loading_start_time g)\<rparr>"
  have u: "update now g = ?g" using Cons.prems by (rule update_live)
  have "is_loading (run_updates ticks ?g) \<and> \<not> loading_completed (run_updates ticks ?g)
         \<and> current_state (run_updates ticks ?g) = current_state ?g"
    using Cons.prems by (intro Cons.IH) simp_all
  then show ?case by (simp add: u)
qed

lemma update_loading_thread_ended:
  assumes "loading_operation g = Some th" and "\<not> loading_completed g"
  shows "loading_completed (update_loading now (thread_ends g))"
  using assms by (simp add: update_loading_def thread_ends_def Let_def)

text \<open>
  Claim C2, as stated, for a task whose operation is still running. A logged-in user
  starts the analysis of a scenario; the operation calls the AI service, which has not
  answered. The step at an elapsed time of 10000 ms, far past both thresholds, neither
  sets the task completed nor leaves the loading state, and the screen stays where it
  was; the same holds after a run of steps that ends an hour after the start. The two
  time tests of \<open>update_loading\<close> sit in the branch taken only when there is no
  operation or the task is already completed.
\<close>

theorem watchdog_live_operation_counterexample:
  "is_loading (update_loading 10000 (start_loading 0 ''Analyzing your scenario...'' (Some LETS_TALK)
      (Some (PerformScenarioAnalysis ''Should I move abroad?''))
      (initial_game\<lparr>current_state := SCENARIO, user := Some ''alice'',
         token := Some ''token''\<rparr>)))
   \<and> \<not> loading_completed (update_loading 10000 (start_loading 0 ''Analyzing your scenario...''
      (Some LETS_TALK) (Some (PerformScenarioAnalysis ''Should I move abroad?''))
      (initial_game\<lparr>current_state := SCENARIO, user := Some ''alice'',
         token := Some ''token''\<rparr>)))
   \<and> current_state (update_loading 10000 (start_loading 0 ''Analyzing your scenario...''
      (Some LETS_TALK) (Some (PerformScenarioAnalysis ''Should I move abroad?''))
      (initial_game\<lparr>current_state := SCENARIO, user := Some ''alice'',
         token := Some ''token''\<rparr>))) = SCENARIO
   \<and> is_loading (run_updates [1000, 3000, 4000, 10000, 3600000]
      (start_loading 0 ''Analyzing your scenario...'' (Some LETS_TALK)
      (Some (PerformScenarioAnalysis ''Should I move abroad?''))
      (initial_game\<lparr>current_state := SCENARIO, user := Some ''alice'',
         token := Some ''token''\<rparr>)))"
  by (simp add: update_def update_loading_def start_loading_def initial_game_def Let_def)

text \<open>
  Claim C2, amended. For a loading task that has no operation, or is already completed,
  or whose operation thread is no longer alive: a step later than 2500 ms after the
  start leaves the task completed; a step later than 3500 ms on a completed task leaves
  the loading state and sets the current screen to \<open>LOGIN\<close>; and after one \<open>update\<close>
  past 2500 ms followed by one past 3500 ms the application is no longer loading.
  For a task that is not completed and whose operation thread is alive, a step changes
  the animation frame and nothing else, whatever the elapsed time: under any sequence
  of steps the application stays loading, not completed and on the same screen, until
  the thread ends, and the first step after that sets the task completed.
\<close>

theorem watchdog_without_live_operation:
  "(loading_operation g = None \<or> loading_completed g
      \<or> \<not> is_alive (the (loading_operation g)) \<longrightarrow>
      (2500 < now - loading_start_time g \<longrightarrow> loading_completed (update_loading now g))
      \<and> (loading_completed g \<and> 3500 < now - loading_start_time g \<longrightarrow>
            \<not> is_loading (update_loading now g) \<and> current_state (update_loading now g) = LOGIN)
      \<and> (2500 < now1 - loading_start_time g \<and> 3500 < now2 - loading_start_time g \<longrightarrow>
            \<not> is_loading (update now2 (update now1 g))))
   \<and> (is_loading g \<and> loading_operation g = Some th \<and> is_alive th
        \<and> \<not> loading_completed g \<longrightarrow>
      update_loading now g =
        g\<lparr>loading_animation_frames := animation_frame (now - loading_start_time g)\<rparr>
      \<and> is_loading (run_updates ticks g) \<and> \<not> loading_completed (run_updates ticks g)
      \<and> current_state (run_updates ticks g) = current_state g
      \<and> loading_completed (update_loading now (thread_ends g)))"
proof (intro conjI impI)
  assume a: "loading_operation g = None \<or> loading_completed g
      \<or> \<not> is_alive (the (loading_operation g))"
  show "loading_completed (update_loading now g)" if "2500 < now - loading_start_time g"
    using a that by (rule update_loading_forced)
  show "\<not> is_loading (update_loading now g)" "current_state (update_loading now g) = LOGIN"
    if "loading_completed g \<and> 3500 < now - loading_start_time g"
    using update_loading_exit [of g now] that by simp_all
  show "\<not> is_loading (update now2 (update now1 g))"
    if "2500 < now1 - loading_start_time g \<and> 3500 < now2 - loading_start_time g"
    using update_two_ticks [OF a] that by simp
next
  assume b: "is_loading g \<and> loading_operation g = Some th \<and> is_alive th
        \<and> \<not> loading_completed g"
  then have b1: "is_loading g" and b2: "loading_operation g = Some th" and b3: "is_alive th"
    and b4: "\<not> loading_completed g"
    by simp_all
  show "update_loading now g =
        g\<lparr>loading_animation_frames := animation_frame (now - loading_start_time g)\<rparr>"
    using b2 b3 b4 by (rule update_loading_live)
  have "is_loading (run_updates ticks g) \<and> \<not> loading_completed (run_updates ticks g)
         \<and> current_state (run_updates ticks g) = current_state g"
    using b1 b2 b3 b4 by (rule run_updates_live)
  then show "is_loading (run_updates ticks g)" "\<not> loading_completed (run_updates ticks g)"
    "current_state (run_updates ticks g) = current_state g"
    by simp_all
  show "loading_completed (update_loading now (thread_ends g))"
    using b2 b4 by (rule update_loading_thread_ended)
qed

theorem watchdog_without_live_operation_witness:
  "loading_completed (update_loading 3000 (start_loading 0 ''Loading...'' None None initial_game))
   \<and> \<not> is_loading (update 4000 (update 3000 (start_loading 0 ''Loading...'' None None initial_game)))
   \<and> current_state (update_loading 4000
        (update_loading 3000 (start_loading 0 ''Loading...'' None None initial_game))) = LOGIN
   \<and> is_loading (run_updates [3000, 4000] (start_loading 0 ''Logging in...'' (Some SCENARIO)
        (Some (PerformLogin ''alice'' ''secret'')) (initial_game\<lparr>current_state := LOGIN\<rparr>)))
   \<and> current_state (run_updates [3000, 4000] (start_loading 0 ''Logging in...'' (Some SCENARIO)
        (Some (PerformLogin ''alice'' ''secret'')) (initial_game\<lparr>current_state := LOGIN\<rparr>))) = LOGIN
   \<and> loading_completed (update_loading 4016 (thread_ends (start_loading 0 ''Logging in...''
        (Some SCENARIO) (Some (PerformLogin ''alice'' ''secret''))
        (initial_game\<lparr>current_state := LOGIN\<rparr>))))"
  using watchdog_without_live_operation
    [of "start_loading 0 ''Loading...'' None None initial_game" 3000 3000 4000
        "Thread LoadHistoryData True" "[]"]
    watchdog_without_live_operation
    [of "update_loading 3000 (start_loading 0 ''Loading...'' None None initial_game)" 4000 3000 4000
        "Thread LoadHistoryData True" "[]"]
    watchdog_without_live_operation
    [of "start_loading 0 ''Logging in...'' (Some SCENARIO)
        (Some (PerformLogin ''alice'' ''secret'')) (initial_game\<lparr>current_state := LOGIN\<rparr>)"
        4016 3000 4000 "Thread (PerformLogin ''alice'' ''secret'') True" "[3000, 4000]"]
  by (simp add: start_loading_def initial_game_def update_loading_fields)

section \<open>Completion of a loading task\<close>

lemma update_loading_current_unchanged:
  "\<not> loading_completed (update_loading now g) \<Longrightarrow>
     current_state (update_loading now g) = current_state g
     \<and> is_loading (update_loading now g) = is_loading g"
  by (auto simp add: update_loading_def Let_def split: if_splits)

lemma update_completes:
  assumes "is_loading g" and "loading_target_state g = Some t"
      and "loading_completed (update_loading now g)"
  shows "current_state (update now g) = t" and "\<not> is_loading (update now g)"
    and "loading_target_state (update now g) = None"
  using assms by (simp_all add: update_def Let_def update_loading_fields)

lemma register_failure_fields:
  assumes "is_loading g"
      and "result = RegisterRaised e \<or> (result = RegisterReturned code detail \<and> code \<noteq> Some 200)"
  shows "is_loading (register result g)" "loading_completed (register result g)"
        "loading_target_state (register result g) = Some REGISTER"
  using assms by (auto simp add: register_def set_status_def Let_def)

text \<open>
  Claim C3. For a loading task with target screen \<open>t\<close>: the \<open>update\<close> in which the task
  is found completed moves to \<open>t\<close>, the target held at that moment, leaves the loading
  state and clears the target, and every later \<open>update\<close> changes nothing; an \<open>update\<close>
  in which the task is not yet completed leaves the screen where it is. When
  \<open>register\<close> fails while the task is in flight it overwrites the target, and the
  next \<open>update\<close> lands on \<open>REGISTER\<close> whatever the target was at the start.
\<close>

theorem completion_transition:
  assumes "is_loading g" and "loading_target_state g = Some t"
  shows "(loading_completed (update_loading now g) \<longrightarrow>
            current_state (update now g) = t \<and> \<not> is_loading (update now g)
            \<and> loading_target_state (update now g) = None
            \<and> run_updates ticks (update now g) = update now g)
       \<and> (\<not> loading_completed (update_loading now' g) \<longrightarrow>
            current_state (update now' g) = current_state g \<and> is_loading (update now' g))
       \<and> (result = RegisterRaised e \<or> (result = RegisterReturned code detail \<and> code \<noteq> Some 200) \<longrightarrow>
            current_state (update now (register result g)) = REGISTER
            \<and> \<not> is_loading (update now (register result g)))"
proof (intro conjI impI)
  assume c: "loading_completed (update_loading now g)"
  show "current_state (update now g) = t" "\<not> is_loading (update now g)"
       "loading_target_state (update now g) = None"
    using update_completes [OF assms c] by simp_all
  then show "run_updates ticks (update now g) = update now g"
    by (simp add: run_updates_not_loading)
next
  assume n: "\<not> loading_completed (update_loading now' g)"
  then have "update now' g = update_loading now' g"
    using assms(1) by (simp add: update_def Let_def)
  then show "current_state (update now' g) = current_state g" "is_loading (update now' g)"
    using update_loading_current_unchanged [OF n] assms(1) by simp_all
next
  assume f: "result = RegisterRaised e \<or> (result = RegisterReturned code detail \<and> code \<noteq> Some 200)"
  note r = register_failure_fields [OF assms(1) f]
  have c: "loading_completed (update_loading now (register result g))"
    using r(2) by (rule update_loading_keeps_completed)
  show "current_state (update now (register result g)) = REGISTER"
       "\<not> is_loading (update now (register result g))"
    using update_completes [OF r(1) r(3) c] by simp_all
qed

theorem completion_transition_witness:
  "current_state (update 3000 (start_loading 0 ''Loading history...'' (Some HISTORY) None
      (initial_game\<lparr>current_state := SCENARIO\<rparr>))) = HISTORY
   \<and> current_state (update 1000 (start_loading 0 ''Loading history...'' (Some HISTORY) None
      (initial_game\<lparr>current_state := SCENARIO\<rparr>))) = SCENARIO
   \<and> current_state (update 3000 (register (RegisterReturned (Some 400) (Some ''Username taken''))
      (start_loading 0 ''Loading history...'' (Some HISTORY) None
      (initial_game\<lparr>current_state := SCENARIO\<rparr>)))) = REGISTER"
  using completion_transition [of "start_loading 0 ''Loading history...'' (Some HISTORY) None
      (initial_game\<lparr>current_state := SCENARIO\<rparr>)" HISTORY 3000 "[]" 1000
      "RegisterReturned (Some 400) (Some ''Username taken'')" "[]" "Some 400" "Some ''Username taken''"]
  by (simp add: start_loading_def initial_game_def update_loading_def register_def set_status_def Let_def)

section \<open>The time-based path\<close>

lemma no_operation_invariant:
  assumes "loading_operation g = None" and "is_loading g \<or> loading_completed g"
  shows "loading_operation (update now g) = None
         \<and> (is_loading (update now g) \<or> loading_completed (update now g))"
  using assms by (auto simp add: update_def update_loading_def Let_def)

lemma no_operation_forced:
  assumes "loading_operation g = None" and "is_loading g \<or> loading_completed g"
      and "2500 < now - loading_start_time g"
  shows "loading_completed (update now g)"
  using assms by (auto simp add: update_def update_loading_def Let_def)

lemma run_updates_keeps_completed:
  "loading_completed g \<Longrightarrow> loading_completed (run_updates ticks g)"
  by (induction ticks arbitrary: g) (simp_all add: update_keeps_completed)

lemma run_updates_forced:
  assumes "loading_operation g = None" and "is_loading g \<or> loading_completed g"
      and "\<exists>now \<in> set ticks. 2500 < now - loading_start_time g"
  shows "loading_completed (run_updates ticks g)"
  using assms
proof (induction ticks arbitrary: g)
  case Nil
  then show ?case by simp
next
  case (Cons now ticks)
  note inv = no_operation_invariant [OF Cons.prems(1,2), of now]
  show ?case
  proof (cases "2500 < now - loading_start_time g")
    case True
    then have "loading_completed (update now g)"
      using Cons.prems(1,2) by (intro no_operation_forced)
    then show ?thesis by (simp add: run_updates_keeps_completed)
  next
    case False
    then have "\<exists>n \<in> set ticks. 2500 < n - loading_start_time (update now g)"
      using Cons.prems(3) by (auto simp add: update_fields)
    then show ?thesis using Cons.IH [of "update now g"] inv by simp
  qed
qed

lemma update_not_yet:
  assumes "loading_operation g = None" and "\<not> loading_completed g"
      and "now - loading_start_time g \<le> 2500"
  shows "loading_operation (update now g) = None \<and> \<not> loading_completed (update now g)
         \<and> is_loading (update now g) = is_loading g"
  using assms by (auto simp add: update_def update_loading_def Let_def)

lemma run_updates_not_yet:
  assumes "loading_operation g = None" and "\<not> loading_completed g"
      and "\<forall>now \<in> set ticks. now - loading_start_time g \<le> 2500"
  shows "\<not> loading_completed (run_updates ticks g) \<and> is_loading (run_updates ticks g) = is_loading g"
  using assms
proof (induction ticks arbitrary: g)
  case Nil
  then show ?case by simp
next
  case (Cons now ticks)
  have s: "now - loading_start_time g \<le> 2500" using Cons.prems(3) by simp
  note u = update_not_yet [OF Cons.prems(1,2) s]
  have "\<forall>n \<in> set ticks. n - loading_start_time (update now g) \<le> 2500"
    using Cons.prems(3) by (simp add: update_fields)
  then show ?case using Cons.IH [of "update now g"] u by simp
qed

lemma update_loading_progress:
  assumes "loading_operation g = None"
  shows "loading_progress (update_loading now g) =
           (if now - loading_start_time g < 2000 then progress_ramp (now - loading_start_time g) else 100)"
  using assms by (simp add: update_loading_def Let_def)

lemma update_progress_range:
  assumes "loading_operation g = None" and "loading_start_time g \<le> now"
      and "0 \<le> loading_progress g \<and> loading_progress g \<le> 100"
  shows "0 \<le> loading_progress (update now g) \<and> loading_progress (update now g) \<le> 100"
proof (cases "is_loading g")
  case False
  then show ?thesis using assms(3) by (simp add: update_not_loading)
next
  case True
  have eq: "loading_progress (update now g) = loading_progress (update_loading now g)"
    using True by (simp add: update_def Let_def)
  show ?thesis
  proof (cases "now - loading_start_time g < 2000")
    case less: True
    then show ?thesis
      using progress_ramp_bounds [of "now - loading_start_time g"] assms(1,2)
      by (simp add: eq update_loading_progress)
  next
    case False
    then show ?thesis using assms(1) by (simp add: eq update_loading_progress)
  qed
qed

lemma run_updates_progress_range:
  assumes "loading_operation g = None" and "is_loading g \<or> loading_completed g"
      and "\<forall>now \<in> set ticks. loading_start_time g \<le> now"
      and "0 \<le> loading_progress g \<and> loading_progress g \<le> 100"
  shows "0 \<le> loading_progress (run_updates ticks g) \<and> loading_progress (run_updates ticks g) \<le> 100"
  using assms
proof (induction ticks arbitrary: g)
  case Nil
  then show ?case by simp
next
  case (Cons now ticks)
  have s: "loading_start_time g \<le> now" using Cons.prems(3) by simp
  note inv = no_operation_invariant [OF Cons.prems(1,2), of now]
  note pr = update_progress_range [OF Cons.prems(1) s Cons.prems(4)]
  have "\<forall>n \<in> set ticks. loading_start_time (update now g) \<le> n"
    using Cons.prems(3) by (simp add: update_fields)
  then show ?case using Cons.IH [of "update now g"] inv pr by simp
qed

lemma start_loading_fields:
  "loading_operation (start_loading t0 message target None g) = None"
  "is_loading (start_loading t0 message target None g)"
  "\<not> loading_completed (start_loading t0 message target None g)"
  "loading_start_time (start_loading t0 message target None g) = t0"
  "loading_progress (start_loading t0 message target None g) = 0"
  by (simp_all add: start_loading_def)

lemma update_loading_progress_mono:
  assumes "loading_operation g = None" and "loading_start_time g \<le> now" and "now \<le> now'"
  shows "loading_progress (update_loading now g) \<le> loading_progress (update_loading now' g)"
proof (cases "now' - loading_start_time g < 2000")
  case True
  then show ?thesis
    using assms progress_ramp_mono [of "now - loading_start_time g" "now' - loading_start_time g"]
    by (simp add: update_loading_progress)
next
  case False
  then show ?thesis
    using assms progress_ramp_bounds [of "now - loading_start_time g"]
    by (simp add: update_loading_progress)
qed

text \<open>
  Claim C7. For a loading task started with no operation, under any sequence of
  \<open>update\<close> steps: once a step comes later than 2500 ms after the start the task is
  completed, and as long as no step is later than that it is not completed and still
  loading. One step at the elapsed time \<open>e\<close> sets the progress as follows: below
  2000 ms it lies between \<open>(e - 1) div 20\<close> and \<open>e div 20\<close> and is \<open>e div 20\<close> when
  \<open>e\<close> is no multiple of 20 (the percentage of 2000 ms, computed in floating point);
  from 2000 ms on it is 100; it never decreases as the time grows; it is 50 at
  1000 ms and 28 at 580 ms. When no step is earlier than the start the progress stays
  between 0 and 100.
\<close>

theorem no_operation_completes:
  "((\<exists>now \<in> set ticks. 2500 < now - t0) \<longrightarrow>
      loading_completed (run_updates ticks (start_loading t0 message target None g)))
   \<and> ((\<forall>now \<in> set ticks. now - t0 \<le> 2500) \<longrightarrow>
      \<not> loading_completed (run_updates ticks (start_loading t0 message target None g))
      \<and> is_loading (run_updates ticks (start_loading t0 message target None g)))
   \<and> (t0 \<le> now \<and> now - t0 < 2000 \<longrightarrow>
      (now - t0 - 1) div 20
        \<le> loading_progress (update_loading now (start_loading t0 message target None g))
      \<and> loading_progress (update_loading now (start_loading t0 message target None g))
        \<le> (now - t0) div 20)
   \<and> (t0 \<le> now \<and> now - t0 < 2000 \<and> (now - t0) mod 20 \<noteq> 0 \<longrightarrow>
      loading_progress (update_loading now (start_loading t0 message target None g))
        = (now - t0) div 20)
   \<and> (2000 \<le> now - t0 \<longrightarrow>
      loading_progress (update_loading now (start_loading t0 message target None g)) = 100)
   \<and> (t0 \<le> now \<and> now \<le> now' \<longrightarrow>
      loading_progress (update_loading now (start_loading t0 message target None g))
        \<le> loading_progress (update_loading now' (start_loading t0 message target None g)))
   \<and> loading_progress (update_loading (t0 + 1000) (start_loading t0 message target None g)) = 50
   \<and> loading_progress (update_loading (t0 + 580) (start_loading t0 message target None g)) = 28
   \<and> ((\<forall>now \<in> set ticks. t0 \<le> now) \<longrightarrow>
      0 \<le> loading_progress (run_updates ticks (start_loading t0 message target None g))
      \<and> loading_progress (run_updates ticks (start_loading t0 message target None g)) \<le> 100)"
proof (intro conjI impI)
  let ?g = "start_loading t0 message target None g"
  assume "\<exists>now \<in> set ticks. 2500 < now - t0"
  then show "loading_completed (run_updates ticks ?g)"
    by (intro run_updates_forced) (simp_all add: start_loading_fields)
next
  let ?g = "start_loading t0 message target None g"
  assume "\<forall>now \<in> set ticks. now - t0 \<le> 2500"
  then have "\<not> loading_completed (run_updates ticks ?g)
             \<and> is_loading (run_updates ticks ?g) = is_loading ?g"
    by (intro run_updates_not_yet) (simp_all add: start_loading_fields)
  then show "\<not> loading_completed (run_updates ticks ?g)" "is_loading (run_updates ticks ?g)"
    by (simp_all add: start_loading_fields)
next
  let ?g = "start_loading t0 message target None g"
  assume a: "t0 \<le> now \<and> now - t0 < 2000"
  then have p: "loading_progress (update_loading now ?g) = progress_ramp (now - t0)"
    by (simp add: update_loading_progress start_loading_fields)
  show "(now - t0 - 1) div 20 \<le> loading_progress (update_loading now ?g)"
       "loading_progress (update_loading now ?g) \<le> (now - t0) div 20"
    using progress_ramp_between [of "now - t0"] a by (simp_all add: p)
next
  let ?g = "start_loading t0 message target None g"
  assume a: "t0 \<le> now \<and> now - t0 < 2000 \<and> (now - t0) mod 20 \<noteq> 0"
  then have p: "loading_progress (update_loading now ?g) = progress_ramp (now - t0)"
    by (simp add: update_loading_progress start_loading_fields)
  show "loading_progress (update_loading now ?g) = (now - t0) div 20"
    using progress_ramp_exact [of "now - t0"] a by (simp add: p)
next
  assume "2000 \<le> now - t0"
  then show "loading_progress (update_loading now (start_loading t0 message target None g)) = 100"
    by (simp add: update_loading_progress start_loading_fields)
next
  assume "t0 \<le> now \<and> now \<le> now'"
  then show "loading_progress (update_loading now (start_loading t0 message target None g))
        \<le> loading_progress (update_loading now' (start_loading t0 message target None g))"
    by (intro update_loading_progress_mono) (simp_all add: start_loading_fields)
next
  show "loading_progress (update_loading (t0 + 1000) (start_loading t0 message target None g)) = 50"
    by (simp add: update_loading_progress start_loading_fields progress_ramp_values)
next
  show "loading_progress (update_loading (t0 + 580) (start_loading t0 message target None g)) = 28"
    by (simp add: update_loading_progress start_loading_fields progress_ramp_values)
next
  let ?g = "start_loading t0 message target None g"
  assume "\<forall>now \<in> set ticks. t0 \<le> now"
  then have "0 \<le> loading_progress (run_updates ticks ?g)
             \<and> loading_progress (run_updates ticks ?g) \<le> 100"
    by (intro run_updates_progress_range) (simp_all add: start_loading_fields)
  then show "0 \<le> loading_progress (run_updates ticks ?g)"
    "loading_progress (run_updates ticks ?g) \<le> 100"
    by simp_all
qed

theorem no_operation_completes_witness:
  "loading_completed (run_updates [16, 1000, 2000, 2516]
      (start_loading 0 ''Loading...'' (Some HISTORY) None initial_game))
   \<and> \<not> loading_completed (run_updates [16, 1000, 2000, 2500]
      (start_loading 0 ''Loading...'' (Some HISTORY) None initial_game))
   \<and> loading_progress (update_loading 1010
      (start_loading 0 ''Loading...'' (Some HISTORY) None initial_game)) = 50
   \<and> loading_progress (update_loading 1000
      (start_loading 0 ''Loading...'' (Some HISTORY) None initial_game)) = 50
   \<and> loading_progress (update_loading 1999
      (start_loading 0 ''Loading...'' (Some HISTORY) None initial_game)) = 99
   \<and> loading_progress (update_loading 2000
      (start_loading 0 ''Loading...'' (Some HISTORY) None initial_game)) = 100
   \<and> loading_progress (run_updates [16, 1000, 2000, 2516]
      (start_loading 0 ''Loading...'' (Some HISTORY) None initial_game)) \<le> 100"
  using no_operation_completes
      [of "[16, 1000, 2000, 2516]" 0 "''Loading...''" "Some HISTORY" initial_game 1010 1999]
    no_operation_completes
      [of "[16, 1000, 2000, 2500]" 0 "''Loading...''" "Some HISTORY" initial_game 1999 2000]
    no_operation_completes
      [of "[16, 1000, 2000, 2500]" 0 "''Loading...''" "Some HISTORY" initial_game 2000 2000]
  by simp

section \<open>Blank input\<close>

lemma py_strip_blank:
  assumes "\<forall>c \<in> set s. py_isspace c"
  shows "py_strip s = []"
proof -
  have d: "dropWhile py_isspace s = []" using assms by (induction s) simp_all
  show ?thesis unfolding py_strip_def d by simp
qed

lemma get_text_new_textbox: "get_text (new_textbox x y w h multiline) = []"
  by (simp add: get_text_def new_textbox_def)

lemma get_text_handle_mouse_down: "get_text (handle_mouse_down pos t) = get_text t"
  by (simp add: get_text_def handle_mouse_down_def)

lemma join_nl_Cons: "ls \<noteq> [] \<Longrightarrow> join_nl (l # ls) = l @ newline # join_nl ls"
  by (cases ls) simp_all

lemma split_from_nonempty: "split_from cur s \<noteq> []"
  by (induction s arbitrary: cur) simp_all

lemma join_split_from: "join_nl (split_from cur s) = rev cur @ s"
  by (induction s arbitrary: cur) (simp_all add: join_nl_Cons split_from_nonempty)

lemma get_text_set_text: "get_text (set_text s t) = s"
  by (simp add: get_text_def set_text_def Let_def split_nl_def join_split_from split_from_nonempty)

text \<open>
  Claim C6. On the scenario screen, when the text of the scenario box is empty or white
  space only, \<open>analyze_scenario\<close> only sets the status message: the screen, the
  loading flag and the loading operation are as before, so no loading task was started.
  On the login screen, when the submit button is clicked and the user name or the
  password is empty, \<open>handle_login_button_click\<close> sets the status message and moves the
  focus of the two boxes, and nothing else.
\<close>

theorem blank_input_rejected:
  "((\<forall>c \<in> set (get_text (scenario_input_box g)). py_isspace c) \<longrightarrow>
      analyze_scenario now g = set_status ''Please enter a scenario first'' (255, 150, 0) g
      \<and> status_message (analyze_scenario now g) = ''Please enter a scenario first''
      \<and> current_state (analyze_scenario now g) = current_state g
      \<and> is_loading (analyze_scenario now g) = is_loading g
      \<and> loading_operation (analyze_scenario now g) = loading_operation g)
   \<and> (is_clicked (login_submit_button g) pos
       \<and> (get_text (username_box g) = [] \<or> get_text (password_box g) = []) \<longrightarrow>
      handle_login_button_click now pos g =
        set_status ''Please enter username and password'' (255, 150, 0)
          (g\<lparr>username_box := handle_mouse_down pos (username_box g),
             password_box := handle_mouse_down pos (password_box g)\<rparr>)
      \<and> status_message (handle_login_button_click now pos g) = ''Please enter username and password''
      \<and> current_state (handle_login_button_click now pos g) = current_state g
      \<and> is_loading (handle_login_button_click now pos g) = is_loading g
      \<and> loading_operation (handle_login_button_click now pos g) = loading_operation g)"
proof (intro conjI impI)
  assume b: "\<forall>c \<in> set (get_text (scenario_input_box g)). py_isspace c"
  show eq: "analyze_scenario now g = set_status ''Please enter a scenario first'' (255, 150, 0) g"
    using py_strip_blank [OF b] by (simp add: analyze_scenario_def Let_def)
  show "status_message (analyze_scenario now g) = ''Please enter a scenario first''"
       "current_state (analyze_scenario now g) = current_state g"
       "is_loading (analyze_scenario now g) = is_loading g"
       "loading_operation (analyze_scenario now g) = loading_operation g"
    by (simp_all add: eq set_status_def)
next
  assume c: "is_clicked (login_submit_button g) pos
       \<and> (get_text (username_box g) = [] \<or> get_text (password_box g) = [])"
  show eq: "handle_login_button_click now pos g =
        set_status ''Please enter username and password'' (255, 150, 0)
          (g\<lparr>username_box := handle_mouse_down pos (username_box g),
             password_box := handle_mouse_down pos (password_box g)\<rparr>)"
    using c by (auto simp add: handle_login_button_click_def Let_def get_text_handle_mouse_down)
  show "status_message (handle_login_button_click now pos g) = ''Please enter username and password''"
       "current_state (handle_login_button_click now pos g) = current_state g"
       "is_loading (handle_login_button_click now pos g) = is_loading g"
       "loading_operation (handle_login_button_click now pos g) = loading_operation g"
    by (simp_all add: eq set_status_def)
qed

theorem blank_input_rejected_witness:
  "status_message (analyze_scenario 0 (initial_game\<lparr>current_state := SCENARIO,
       scenario_input_box := set_text [CHR '' '', newline, CHR '' ''] (scenario_input_box initial_game)\<rparr>))
     = ''Please enter a scenario first''
   \<and> \<not> is_loading (analyze_scenario 0 (initial_game\<lparr>current_state := SCENARIO,
       scenario_input_box := set_text [CHR '' '', newline, CHR '' ''] (scenario_input_box initial_game)\<rparr>))
   \<and> current_state (analyze_scenario 0 (initial_game\<lparr>current_state := SCENARIO,
       scenario_input_box := set_text [CHR '' '', newline, CHR '' ''] (scenario_input_box initial_game)\<rparr>)) = SCENARIO
   \<and> status_message (handle_login_button_click 0 (500, 370) (initial_game\<lparr>current_state := LOGIN,
       username_box := set_text ''alice'' (username_box initial_game)\<rparr>))
     = ''Please enter username and password''
   \<and> \<not> is_loading (handle_login_button_click 0 (500, 370) (initial_game\<lparr>current_state := LOGIN,
       username_box := set_text ''alice'' (username_box initial_game)\<rparr>))
   \<and> current_state (handle_login_button_click 0 (500, 370) (initial_game\<lparr>current_state := LOGIN,
       username_box := set_text ''alice'' (username_box initial_game)\<rparr>)) = LOGIN"
  using blank_input_rejected [of "initial_game\<lparr>current_state := SCENARIO,
       scenario_input_box := set_text [CHR '' '', newline, CHR '' ''] (scenario_input_box initial_game)\<rparr>" 0 "(500, 370)"]
    blank_input_rejected [of "initial_game\<lparr>current_state := LOGIN,
       username_box := set_text ''alice'' (username_box initial_game)\<rparr>" 0 "(500, 370)"]
  by (simp add: initial_game_def get_text_set_text get_text_new_textbox py_isspace_def newline_def
      is_clicked_def collidepoint_def new_button_def set_status_def)

section \<open>Progress of the conversation\<close>

lemma submit_step:
  assumes "response_input g = Some box" and "r \<noteq> []"
  shows "\<exists>g' b'. submit_response d (type_response r g) = Inr g'
           \<and> response_input g' = Some b' \<and> get_text b' = []
           \<and> user_responses g' = user_responses g @ [r]
           \<and> current_question_index g' = current_question_index g + 1
           \<and> conversation_questions g' = conversation_questions g
           \<and> (conversation_complete g' \<longleftrightarrow>
                conversation_complete g
                \<or> int (length (conversation_questions g)) \<le> current_question_index g + 1)"
  using assms
  by (simp add: submit_response_def type_response_def answer_current_question_def
      complete_conversation_def set_status_def get_text_set_text Let_def)

lemma submit_all_run:
  assumes "response_input g = Some box" and "\<forall>x \<in> set rs. snd x \<noteq> []"
  shows "\<exists>g' b'. submit_all rs g = Inr g'
           \<and> response_input g' = Some b' \<and> (rs \<noteq> [] \<longrightarrow> get_text b' = [])
           \<and> user_responses g' = user_responses g @ map snd rs
           \<and> current_question_index g' = current_question_index g + int (length rs)
           \<and> conversation_questions g' = conversation_questions g
           \<and> (conversation_complete g' \<longleftrightarrow>
                conversation_complete g
                \<or> (rs \<noteq> [] \<and> int (length (conversation_questions g))
                      \<le> current_question_index g + int (length rs)))"
  using assms
proof (induction rs arbitrary: g box)
  case Nil
  then show ?case by simp
next
  case (Cons x rs)
  obtain d r where x: "x = (d, r)" by (cases x)
  have r: "r \<noteq> []" using Cons.prems(2) x by simp
  from submit_step [OF Cons.prems(1) r, of d]
  obtain g1 b1 where s: "submit_response d (type_response r g) = Inr g1"
    and b1: "response_input g1 = Some b1" "get_text b1 = []"
    and u1: "user_responses g1 = user_responses g @ [r]"
    and i1: "current_question_index g1 = current_question_index g + 1"
    and q1: "conversation_questions g1 = conversation_questions g"
    and c1: "conversation_complete g1 \<longleftrightarrow>
                conversation_complete g
                \<or> int (length (conversation_questions g)) \<le> current_question_index g + 1"
    by blast
  have rest: "\<forall>x \<in> set rs. snd x \<noteq> []" using Cons.prems(2) by simp
  from Cons.IH [OF b1(1) rest]
  obtain g' b' where t: "submit_all rs g1 = Inr g'"
    and b': "response_input g' = Some b'" "rs \<noteq> [] \<longrightarrow> get_text b' = []"
    and u': "user_responses g' = user_responses g1 @ map snd rs"
    and i': "current_question_index g' = current_question_index g1 + int (length rs)"
    and q': "conversation_questions g' = conversation_questions g1"
    and c': "conversation_complete g' \<longleftrightarrow>
                conversation_complete g1
                \<or> (rs \<noteq> [] \<and> int (length (conversation_questions g1))
                      \<le> current_question_index g1 + int (length rs))"
    by blast
  have e: "submit_all (x # rs) g = Inr g'" using s t x by simp
  have clr: "get_text b' = []"
  proof (cases rs)
    case Nil
    then have "g' = g1" using t by simp
    then show ?thesis using b1 b'(1) by simp
  next
    case (Cons y ys)
    then show ?thesis using b'(2) by simp
  qed
  have cc: "conversation_complete g' \<longleftrightarrow>
                conversation_complete g
                \<or> int (length (conversation_questions g))
                      \<le> current_question_index g + int (length (x # rs))"
    using c' c1 q1 i1 by auto
  show ?case
    using e b'(1) clr u' u1 i' i1 q' q1 cc x by simp
qed

text \<open>
  Claim C4. A conversation is initialised with the questions \<open>questions\<close>, and the
  user types and submits the non-empty responses \<open>rs\<close>, one for each question. After
  the first \<open>k\<close> submissions, for every \<open>k\<close> up to the number of questions: no
  submission has failed, \<open>current_question_index\<close> is \<open>k\<close>, \<open>user_responses\<close> holds
  the first \<open>k\<close> responses in order, the response box is empty once a response has
  been submitted, and \<open>conversation_complete\<close> is true exactly when \<open>k\<close> is the number
  of questions (and at least one response was submitted): it becomes true at the
  last submission and not before.
\<close>

theorem conversation_completes_at_last_response:
  assumes "length rs = length questions" and "\<forall>x \<in> set rs. snd x \<noteq> []" and "k \<le> length rs"
  shows "\<exists>g' b'. submit_all (take k rs) (initialize_conversation questions g) = Inr g'
           \<and> current_question_index g' = int k
           \<and> user_responses g' = map snd (take k rs)
           \<and> (conversation_complete g' \<longleftrightarrow> 0 < k \<and> k = length questions)
           \<and> response_input g' = Some b' \<and> (0 < k \<longrightarrow> get_text b' = [])"
proof -
  let ?g = "initialize_conversation questions g"
  have init: "response_input ?g = Some (new_textbox 150 480 700 80 True)"
    "current_question_index ?g = 0" "user_responses ?g = []"
    "\<not> conversation_complete ?g" "conversation_questions ?g = questions"
    by (simp_all add: initialize_conversation_def setup_conversation_ui_def)
  have ne: "\<forall>x \<in> set (take k rs). snd x \<noteq> []"
    using assms(2) by (auto dest: in_set_takeD)
  have len: "length (take k rs) = k" using assms(3) by simp
  have nil: "take k rs \<noteq> [] \<longleftrightarrow> 0 < k" using len by (cases "take k rs") auto
  from submit_all_run [OF init(1) ne]
  obtain g' b' where "submit_all (take k rs) ?g = Inr g'"
    "response_input g' = Some b'" "take k rs \<noteq> [] \<longrightarrow> get_text b' = []"
    "user_responses g' = user_responses ?g @ map snd (take k rs)"
    "current_question_index g' = current_question_index ?g + int (length (take k rs))"
    "conversation_complete g' \<longleftrightarrow>
                conversation_complete ?g
                \<or> (take k rs \<noteq> [] \<and> int (length (conversation_questions ?g))
                      \<le> current_question_index ?g + int (length (take k rs)))"
    by blast
  then show ?thesis using init len nil assms(1,3) by (intro exI [of _ g'] exI [of _ b']) auto
qed

theorem conversation_completes_at_last_response_witness:
  "(case submit_all [(0, ''It is costly''), (3, ''Stay or go''), (1, ''Peace of mind''), (4, ''Once''), (2, ''Family'')]
      (initialize_conversation generate_conversation_questions initial_game) of
      Inl e \<Rightarrow> False
    | Inr g' \<Rightarrow> conversation_complete g' \<and> current_question_index g' = 5
        \<and> user_responses g' = [''It is costly'', ''Stay or go'', ''Peace of mind'', ''Once'', ''Family''])
   \<and> (case submit_all [(0, ''It is costly''), (3, ''Stay or go''), (1, ''Peace of mind''), (4, ''Once'')]
      (initialize_conversation generate_conversation_questions initial_game) of
      Inl e \<Rightarrow> False
    | Inr g' \<Rightarrow> \<not> conversation_complete g' \<and> current_question_index g' = 4)"
  using conversation_completes_at_last_response
      [of "[(0, ''It is costly''), (3, ''Stay or go''), (1, ''Peace of mind''), (4, ''Once''), (2, ''Family'')]"
          generate_conversation_questions 5 initial_game]
    conversation_completes_at_last_response
      [of "[(0, ''It is costly''), (3, ''Stay or go''), (1, ''Peace of mind''), (4, ''Once''), (2, ''Family'')]"
          generate_conversation_questions 4 initial_game]
  by (auto simp add: generate_conversation_questions_def)

section \<open>Local quiz scoring: the scores and the type code\<close>

lemma score_item_fields:
  "e_score (score_item qs item sc) = e_score sc + contribution ''E-I'' qs item"
  "i_score (score_item qs item sc) = i_score sc + contribution ''I-E'' qs item"
  "s_score (score_item qs item sc) = s_score sc + contribution ''S-N'' qs item"
  "n_score (score_item qs item sc) = n_score sc + contribution ''N-S'' qs item"
  "t_score (score_item qs item sc) = t_score sc + contribution ''T-F'' qs item"
  "f_score (score_item qs item sc) = f_score sc + contribution ''F-T'' qs item"
  "j_score (score_item qs item sc) = j_score sc + contribution ''J-P'' qs item"
  "p_score (score_item qs item sc) = p_score sc + contribution ''P-J'' qs item"
  by (simp_all add: score_item_def contribution_def apply_score_def split: option.splits)

lemma score_answers_fields:
  "e_score (score_answers qs answers sc) = e_score sc + pole_total ''E-I'' qs answers"
  "i_score (score_answers qs answers sc) = i_score sc + pole_total ''I-E'' qs answers"
  "s_score (score_answers qs answers sc) = s_score sc + pole_total ''S-N'' qs answers"
  "n_score (score_answers qs answers sc) = n_score sc + pole_total ''N-S'' qs answers"
  "t_score (score_answers qs answers sc) = t_score sc + pole_total ''T-F'' qs answers"
  "f_score (score_answers qs answers sc) = f_score sc + pole_total ''F-T'' qs answers"
  "j_score (score_answers qs answers sc) = j_score sc + pole_total ''J-P'' qs answers"
  "p_score (score_answers qs answers sc) = p_score sc + pole_total ''P-J'' qs answers"
  by (induction answers arbitrary: sc; simp add: pole_total_def score_item_fields)+

lemma score_answers_totals:
  "score_answers qs answers zero_scores =
     \<lparr>e_score = pole_total ''E-I'' qs answers, i_score = pole_total ''I-E'' qs answers,
      s_score = pole_total ''S-N'' qs answers, n_score = pole_total ''N-S'' qs answers,
      t_score = pole_total ''T-F'' qs answers, f_score = pole_total ''F-T'' qs answers,
      j_score = pole_total ''J-P'' qs answers, p_score = pole_total ''P-J'' qs answers\<rparr>"
  by (rule scores.equality) (simp_all add: score_answers_fields zero_scores_def)

lemma pole_total_mset:
  assumes "mset answers = mset answers'"
  shows "pole_total dim qs answers = pole_total dim qs answers'"
proof -
  have "sum_list (map (contribution dim qs) answers)
        = sum_mset (image_mset (contribution dim qs) (mset answers))"
    by (metis mset_map sum_mset_sum_list)
  also have "\<dots> = sum_mset (image_mset (contribution dim qs) (mset answers'))"
    using assms by simp
  also have "\<dots> = sum_list (map (contribution dim qs) answers')"
    by (metis mset_map sum_mset_sum_list)
  finally show ?thesis by (simp add: pole_total_def)
qed

lemma compute_type_totals:
  "compute_type qs answers =
     [if pole_total ''I-E'' qs answers < pole_total ''E-I'' qs answers then CHR ''E'' else CHR ''I'',
      if pole_total ''N-S'' qs answers < pole_total ''S-N'' qs answers then CHR ''S'' else CHR ''N'',
      if pole_total ''F-T'' qs answers < pole_total ''T-F'' qs answers then CHR ''T'' else CHR ''F'',
      if pole_total ''P-J'' qs answers < pole_total ''J-P'' qs answers then CHR ''J'' else CHR ''P'']"
  by (simp add: compute_type_def type_code_def score_answers_totals)

text \<open>
  Claim C5. The scores \<open>score_answers\<close> computes from zero are, pole by pole, the sums
  of the specification's rule: an answer index \<open>a\<close> to a question tagged with a
  dimension adds \<open>2 - a\<close> to the pole that the tag names first, and the contributions
  of all answered questions add up. The result stored by \<open>generate_local_mbti_result\<close>
  is the type code of the questions and answers of the state and depends on nothing
  else: two states with the same questions and the same answers, recorded in any
  order, get the same type code.
\<close>

theorem local_scoring_deterministic:
  "score_answers questions answers zero_scores =
     \<lparr>e_score = pole_total ''E-I'' questions answers, i_score = pole_total ''I-E'' questions answers,
      s_score = pole_total ''S-N'' questions answers, n_score = pole_total ''N-S'' questions answers,
      t_score = pole_total ''T-F'' questions answers, f_score = pole_total ''F-T'' questions answers,
      j_score = pole_total ''J-P'' questions answers, p_score = pole_total ''P-J'' questions answers\<rparr>
   \<and> mbti_result (generate_local_mbti_result g)
       = Some (compute_type (mbti_questions g) (mbti_answers g))
   \<and> (mbti_questions g1 = mbti_questions g2 \<and> mset (mbti_answers g1) = mset (mbti_answers g2) \<longrightarrow>
        mbti_result (generate_local_mbti_result g1) = mbti_result (generate_local_mbti_result g2))
   \<and> (mset answers = mset answers' \<longrightarrow>
        compute_type questions answers = compute_type questions answers')"
proof (intro conjI impI)
  show "score_answers questions answers zero_scores =
     \<lparr>e_score = pole_total ''E-I'' questions answers, i_score = pole_total ''I-E'' questions answers,
      s_score = pole_total ''S-N'' questions answers, n_score = pole_total ''N-S'' questions answers,
      t_score = pole_total ''T-F'' questions answers, f_score = pole_total ''F-T'' questions answers,
      j_score = pole_total ''J-P'' questions answers, p_score = pole_total ''P-J'' questions answers\<rparr>"
    by (rule score_answers_totals)
  show r: "mbti_result (generate_local_mbti_result g)
       = Some (compute_type (mbti_questions g) (mbti_answers g))" for g
    by (simp add: generate_local_mbti_result_def set_status_def Let_def)
  show m: "compute_type questions answers = compute_type questions answers'"
    if "mset answers = mset answers'" for questions answers answers'
    using that by (simp add: compute_type_totals pole_total_mset [OF that])
  show "mbti_result (generate_local_mbti_result g1) = mbti_result (generate_local_mbti_result g2)"
    if "mbti_questions g1 = mbti_questions g2 \<and> mset (mbti_answers g1) = mset (mbti_answers g2)"
    using that m [of "mbti_answers g1" "mbti_answers g2" "mbti_questions g2"] by (simp add: r)
qed

theorem local_scoring_deterministic_witness:
  "compute_type
     [\<lparr>q_id = Some 1, q_question = ''You find it easy to introduce yourself to other people.'',
       q_options = [], dimension = Some ''E-I''\<rparr>,
      \<lparr>q_id = Some 2, q_question = ''You often get so lost in thoughts that you ignore or forget your surroundings.'',
       q_options = [], dimension = Some ''N-S''\<rparr>,
      \<lparr>q_id = Some 3, q_question = ''You try to respond to emails as soon as possible and cannot stand a messy inbox.'',
       q_options = [], dimension = Some ''J-P''\<rparr>,
      \<lparr>q_id = Some 4, q_question = ''You find it easy to stay relaxed under pressure.'',
       q_options = [], dimension = Some ''T-F''\<rparr>]
     [(1, 0), (2, 3), (3, 1), (4, 4)] = ''ESFJ''
   \<and> compute_type
     [\<lparr>q_id = Some 1, q_question = ''You find it easy to introduce yourself to other people.'',
       q_options = [], dimension = Some ''E-I''\<rparr>,
      \<lparr>q_id = Some 2, q_question = ''You often get so lost in thoughts that you ignore or forget your surroundings.'',
       q_options = [], dimension = Some ''N-S''\<rparr>,
      \<lparr>q_id = Some 3, q_question = ''You try to respond to emails as soon as possible and cannot stand a messy inbox.'',
       q_options = [], dimension = Some ''J-P''\<rparr>,
      \<lparr>q_id = Some 4, q_question = ''You find it easy to stay relaxed under pressure.'',
       q_options = [], dimension = Some ''T-F''\<rparr>]
     [(4, 4), (3, 1), (2, 3), (1, 0)] = ''ESFJ''
   \<and> e_score (score_answers
     [\<lparr>q_id = Some 1, q_question = ''You find it easy to introduce yourself to other people.'',
       q_options = [], dimension = Some ''E-I''\<rparr>,
      \<lparr>q_id = Some 2, q_question = ''You often get so lost in thoughts that you ignore or forget your surroundings.'',
       q_options = [], dimension = Some ''N-S''\<rparr>,
      \<lparr>q_id = Some 3, q_question = ''You try to respond to emails as soon as possible and cannot stand a messy inbox.'',
       q_options = [], dimension = Some ''J-P''\<rparr>,
      \<lparr>q_id = Some 4, q_question = ''You find it easy to stay relaxed under pressure.'',
       q_options = [], dimension = Some ''T-F''\<rparr>]
     [(1, 0), (2, 3), (3, 1), (4, 4)] zero_scores) = 2"
  using local_scoring_deterministic
    [of "[\<lparr>q_id = Some 1, q_question = ''You find it easy to introduce yourself to other people.'',
       q_options = [], dimension = Some ''E-I''\<rparr>,
      \<lparr>q_id = Some 2, q_question = ''You often get so lost in thoughts that you ignore or forget your surroundings.'',
       q_options = [], dimension = Some ''N-S''\<rparr>,
      \<lparr>q_id = Some 3, q_question = ''You try to respond to emails as soon as possible and cannot stand a messy inbox.'',
       q_options = [], dimension = Some ''J-P''\<rparr>,
      \<lparr>q_id = Some 4, q_question = ''You find it easy to stay relaxed under pressure.'',
       q_options = [], dimension = Some ''T-F''\<rparr>]"
      "[(1, 0), (2, 3), (3, 1), (4, 4)]" initial_game initial_game initial_game
      "[(4, 4), (3, 1), (2, 3), (1, 0)]"]
  by (simp add: compute_type_def type_code_def score_item_def apply_score_def zero_scores_def
      pole_total_def contribution_def)

section \<open>Local quiz scoring: ties\<close>

text \<open>
  Claim C9. The type code is read off the pole totals by strict comparisons: the first
  pole of an axis is chosen only when its total is greater. So whenever the two poles
  of an axis have equal scores, which includes the case that no answered question is
  tagged with that axis, the letter is the second pole: \<open>I\<close>, \<open>N\<close>, \<open>F\<close> and \<open>P\<close>. With
  no answers at all the type code is \<open>INFP\<close>, and that is what
  \<open>generate_local_mbti_result\<close> stores and reports.
\<close>

theorem tie_break_second_pole:
  "compute_type questions answers =
     [if pole_total ''I-E'' questions answers < pole_total ''E-I'' questions answers
      then CHR ''E'' else CHR ''I'',
      if pole_total ''N-S'' questions answers < pole_total ''S-N'' questions answers
      then CHR ''S'' else CHR ''N'',
      if pole_total ''F-T'' questions answers < pole_total ''T-F'' questions answers
      then CHR ''T'' else CHR ''F'',
      if pole_total ''P-J'' questions answers < pole_total ''J-P'' questions answers
      then CHR ''J'' else CHR ''P'']
   \<and> (e_score sc = i_score sc \<longrightarrow> type_code sc ! 0 = CHR ''I'')
   \<and> (s_score sc = n_score sc \<longrightarrow> type_code sc ! 1 = CHR ''N'')
   \<and> (t_score sc = f_score sc \<longrightarrow> type_code sc ! 2 = CHR ''F'')
   \<and> (j_score sc = p_score sc \<longrightarrow> type_code sc ! 3 = CHR ''P'')
   \<and> (pole_total ''E-I'' questions answers = pole_total ''I-E'' questions answers \<longrightarrow>
        compute_type questions answers ! 0 = CHR ''I'')
   \<and> (pole_total ''S-N'' questions answers = pole_total ''N-S'' questions answers \<longrightarrow>
        compute_type questions answers ! 1 = CHR ''N'')
   \<and> (pole_total ''T-F'' questions answers = pole_total ''F-T'' questions answers \<longrightarrow>
        compute_type questions answers ! 2 = CHR ''F'')
   \<and> (pole_total ''J-P'' questions answers = pole_total ''P-J'' questions answers \<longrightarrow>
        compute_type questions answers ! 3 = CHR ''P'')
   \<and> compute_type questions [] = ''INFP''
   \<and> (mbti_answers g = [] \<longrightarrow>
        mbti_result (generate_local_mbti_result g) = Some ''INFP''
        \<and> status_message (generate_local_mbti_result g) = ''Your personality type: INFP'')"
  by (simp add: compute_type_totals type_code_def pole_total_def
      generate_local_mbti_result_def set_status_def Let_def)

theorem tie_break_second_pole_witness:
  "compute_type
     [\<lparr>q_id = Some 1, q_question = ''You find it easy to introduce yourself to other people.'',
       q_options = [], dimension = Some ''E-I''\<rparr>,
      \<lparr>q_id = Some 5, q_question = ''You do not usually initiate conversations.'',
       q_options = [], dimension = Some ''I-E''\<rparr>,
      \<lparr>q_id = Some 4, q_question = ''You find it easy to stay relaxed under pressure.'',
       q_options = [], dimension = Some ''T-F''\<rparr>]
     [(1, 1), (5, 1), (4, 0)] = ''INTP''
   \<and> mbti_result (generate_local_mbti_result initial_game) = Some ''INFP''"
  using tie_break_second_pole
    [of "[\<lparr>q_id = Some 1, q_question = ''You find it easy to introduce yourself to other people.'',
       q_options = [], dimension = Some ''E-I''\<rparr>,
      \<lparr>q_id = Some 5, q_question = ''You do not usually initiate conversations.'',
       q_options = [], dimension = Some ''I-E''\<rparr>,
      \<lparr>q_id = Some 4, q_question = ''You find it easy to stay relaxed under pressure.'',
       q_options = [], dimension = Some ''T-F''\<rparr>]"
      "[(1, 1), (5, 1), (4, 0)]" zero_scores initial_game]
  by (simp add: pole_total_def contribution_def initial_game_def)

section \<open>The AI service in degraded mode\<close>

lemma call_groq_api_fails:
  "client_fails outcome \<Longrightarrow> call_groq_api outcome fallback loads = fallback"
  by (cases outcome rule: client_fails.cases) (simp_all add: call_groq_api_def)

text \<open>
  Claim C8. When the client call fails (it raises, or it returns no content), each of
  the four wrappers returns its static fallback payload, whatever the failure is and
  whatever the other arguments are: two calls in degraded mode give equal results. The
  text a wrapper is called with only enters the request sent to the client, so it is
  no argument here. The payloads are the literal ones of the source: the scenario
  analysis has the keys \<^verbatim>\<open>questions\<close>, \<^verbatim>\<open>perspectives\<close> and \<^verbatim>\<open>action_plan\<close>, there are
  five quiz questions and three simulation scenarios, and the fallback type is \<open>INFJ\<close>.
\<close>

theorem fallback_is_constant:
  assumes "client_fails outcome1" and "client_fails outcome2"
  shows "ai_analyze_scenario outcome1 loads1 from_text1 = Inr (JObject fallback_scenario_analysis)
       \<and> ai_analyze_scenario outcome1 loads1 from_text1 = ai_analyze_scenario outcome2 loads2 from_text2
       \<and> get_mbti_questions outcome1 loads1 from_text1 = Inr (JArray fallback_mbti_questions)
       \<and> get_mbti_questions outcome1 loads1 from_text1 = get_mbti_questions outcome2 loads2 from_text2
       \<and> analyze_mbti_answers outcome1 loads1 from_text1 = Inr (JObject fallback_mbti_results)
       \<and> analyze_mbti_answers outcome1 loads1 from_text1 = analyze_mbti_answers outcome2 loads2 from_text2
       \<and> generate_simulation_scenarios outcome1 loads1 from_text1
           = Inr (JArray fallback_simulation_scenarios)
       \<and> generate_simulation_scenarios outcome1 loads1 from_text1
           = generate_simulation_scenarios outcome2 loads2 from_text2
       \<and> map fst fallback_scenario_analysis = [''questions'', ''perspectives'', ''action_plan'']
       \<and> length fallback_mbti_questions = 5
       \<and> map_of fallback_mbti_results ''type'' = Some (JString ''INFJ'')
       \<and> length fallback_simulation_scenarios = 3"
  using assms
  by (simp add: ai_analyze_scenario_def get_mbti_questions_def analyze_mbti_answers_def
      generate_simulation_scenarios_def call_groq_api_fails fallback_scenario_analysis_def
      fallback_mbti_questions_def fallback_mbti_results_def fallback_simulation_scenarios_def)

theorem fallback_is_constant_witness:
  "ai_analyze_scenario (ClientRaised ''Connection error.'') (\<lambda>s. None) JString
     = Inr (JObject fallback_scenario_analysis)
   \<and> ai_analyze_scenario (ClientRaised ''Connection error.'') (\<lambda>s. None) JString
     = ai_analyze_scenario (ClientContent (Some [CHR '' '', newline])) (\<lambda>s. None) JString
   \<and> get_mbti_questions (ClientRaised ''Connection error.'') (\<lambda>s. None) JString
     = get_mbti_questions (ClientContent (Some [CHR '' '', newline])) (\<lambda>s. None) JString
   \<and> analyze_mbti_answers (ClientRaised ''Connection error.'') (\<lambda>s. None) JString
     = analyze_mbti_answers (ClientContent (Some [CHR '' '', newline])) (\<lambda>s. None) JString
   \<and> generate_simulation_scenarios (ClientRaised ''Connection error.'') (\<lambda>s. None) JString
     = generate_simulation_scenarios (ClientContent (Some [CHR '' '', newline])) (\<lambda>s. None) JString"
proof -
  have f1: "client_fails (ClientRaised ''Connection error.'')" by simp
  have f2: "client_fails (ClientContent (Some [CHR '' '', newline]))"
    by (simp add: py_strip_def py_isspace_def newline_def)
  from fallback_is_constant [OF f1 f2, of "\<lambda>s. None" JString "\<lambda>s. None" JString]
  show ?thesis by blast
qed

end
